theory Spec2Isabelle
  imports Complex_Main
begin

section \<open>JavaScript values, strings and messages\<close>

text \<open>
  Strings are byte lists (UTF-8); the three characters the code looks for are ASCII, so
  \<open>includes\<close> on code units and membership in the byte list agree, and
  \<open>Buffer.byteLength(s, 'utf8')\<close> is the length of the list.
\<close>

abbreviation dquote :: char where "dquote \<equiv> CHR 0x22"
abbreviation comma :: char where "comma \<equiv> CHR 0x2C"
abbreviation newline :: char where "newline \<equiv> CHR 0x0A"

text \<open>
  A cell value as the parsing libraries hand it over: a string, a number (integers only; the
  decimal rendering of non-integral numbers is outside the model), a boolean, null or
  undefined.
\<close>

datatype cell = CStr string | CNum int | CBool bool | CNull | CUndefined

fun falsy :: "cell \<Rightarrow> bool" where
  "falsy (CStr s) = (s = [])"
| "falsy (CNum n) = (n = 0)"
| "falsy (CBool b) = (\<not> b)"
| "falsy CNull = True"
| "falsy CUndefined = True"

text \<open>\<open>cell || ''\<close>\<close>

definition or_empty :: "cell \<Rightarrow> cell" where
  "or_empty c = (if falsy c then CStr [] else c)"

function show_nat :: "nat \<Rightarrow> string" where
  "show_nat n = (if n < 10 then [char_of (48 + n)] else show_nat (n div 10) @ [char_of (48 + n mod 10)])"
  by pat_completeness auto
termination
  by (relation "measure id") auto

declare show_nat.simps [simp del]

definition show_int :: "int \<Rightarrow> string" where
  "show_int i = (if i < 0 then CHR ''-'' # show_nat (nat (- i)) else show_nat (nat i))"

text \<open>\<open>String(x)\<close>\<close>

fun js_String :: "cell \<Rightarrow> string" where
  "js_String (CStr s) = s"
| "js_String (CNum n) = show_int n"
| "js_String (CBool b) = (if b then ''true'' else ''false'')"
| "js_String CNull = ''null''"
| "js_String CUndefined = ''undefined''"

text \<open>The conversion \<open>Array.prototype.join\<close> applies to an element: null and undefined give ''.\<close>

fun join_item :: "cell \<Rightarrow> string" where
  "join_item CNull = []"
| "join_item CUndefined = []"
| "join_item c = js_String c"

fun join :: "string \<Rightarrow> string list \<Rightarrow> string" where
  "join sep [] = []"
| "join sep [s] = s"
| "join sep (s # t # ts) = s @ sep @ join sep (t # ts)"

text \<open>\<open>s.replace(/"/g, '""')\<close>\<close>

fun double_quotes :: "string \<Rightarrow> string" where
  "double_quotes [] = []"
| "double_quotes (c # cs) = (if c = dquote then dquote # dquote # double_quotes cs else c # double_quotes cs)"

definition needs_quoting :: "string \<Rightarrow> bool" where
  "needs_quoting s = (comma \<in> set s \<or> dquote \<in> set s \<or> newline \<in> set s)"

definition wrap_quoted :: "string \<Rightarrow> string" where
  "wrap_quoted s = dquote # double_quotes s @ [dquote]"

text \<open>
  \<open>trim\<close> removes white space at both ends; white space is the ASCII white space here, the
  white space beyond ASCII is outside the model.
\<close>

definition is_space :: "char \<Rightarrow> bool" where
  "is_space c = (c \<in> set [CHR 0x20, CHR 0x09, CHR 0x0A, CHR 0x0B, CHR 0x0C, CHR 0x0D])"

definition trim :: "string \<Rightarrow> string" where
  "trim s = rev (dropWhile is_space (rev (dropWhile is_space s)))"

text \<open>
  A path is kept in the decomposed form that \<open>path.dirname\<close>, \<open>path.basename(p, ext)\<close>
  and \<open>path.extname\<close> of the path library return, and \<open>path.join\<close> puts together.
\<close>

record fpath =
  dir :: string
  stem :: string
  ext :: string

definition path_string :: "fpath \<Rightarrow> string" where
  "path_string p = dir p @ ''/'' @ stem p @ ext p"

record file_record =
  path :: fpath
  rows :: nat

record conv_result =
  totalRows :: nat
  files :: "file_record list"

datatype complexity = small | medium | large

record ws_info =
  name :: string
  accessible :: bool
  estimatedRows :: int
  estimatedCols :: int
  complexity :: complexity

text \<open>The messages a worker posts to its parent.\<close>

datatype payload =
    Analysed string "string list" "ws_info list option"
  | Converted conv_result

datatype message =
    Progress rat string
  | WorksheetNames "string list"
  | WorksheetInfos "ws_info list"
  | Success payload
  | Failure string

text \<open>What a function has posted and written so far.\<close>

record io =
  posted :: "message list"
  disk :: "(fpath \<times> string) list"

definition sendProgress :: "rat \<Rightarrow> string \<Rightarrow> io \<Rightarrow> io" where
  "sendProgress p m w = w\<lparr>posted := posted w @ [Progress p m]\<rparr>"

definition postMessage :: "message \<Rightarrow> io \<Rightarrow> io" where
  "postMessage m w = w\<lparr>posted := posted w @ [m]\<rparr>"

definition writeFileSync :: "fpath \<Rightarrow> string \<Rightarrow> io \<Rightarrow> io" where
  "writeFileSync p s w = w\<lparr>disk := disk w @ [(p, s)]\<rparr>"


section \<open>The parsing libraries' view of a workbook\<close>

text \<open>
  The in-memory parser's workbook: for each sheet the decoded range
  \<open>decode_range(ws['!ref'] || 'A1:A1')\<close>, the rows \<open>sheet_to_json(ws, {header: 1, defval: ''})\<close>
  returns, and the cells by (row, column).
\<close>

record range =
  s_r :: int
  s_c :: int
  e_r :: int
  e_c :: int

record worksheet =
  ws_range :: range
  ws_json :: "cell list list"
  ws_cells :: "((int \<times> int) \<times> cell) list"

record workbook =
  SheetNames :: "string list"
  Sheets :: "(string \<times> worksheet) list"

text \<open>The streaming parser's workbook; \<open>rowValues\<close> are the \<open>row.values\<close> arrays \<open>eachRow\<close> visits.\<close>

record xjs_worksheet =
  xjs_name :: string
  rowCount :: int
  columnCount :: int
  rowValues :: "cell list list"

record xjs_workbook =
  worksheets :: "xjs_worksheet list"

definition getWorksheet :: "xjs_workbook \<Rightarrow> string \<Rightarrow> xjs_worksheet option" where
  "getWorksheet wb n = find (\<lambda>ws. xjs_name ws = n) (worksheets wb)"

datatype loaded = XLSX workbook | ExcelJS xjs_workbook

fun method_name :: "loaded \<Rightarrow> string" where
  "method_name (XLSX _) = ''XLSX''"
| "method_name (ExcelJS _) = ''ExcelJS''"

text \<open>What a worker finds when it runs: the file, the libraries that loaded, and what they read.\<close>

record worker_env =
  fileExists :: bool
  isFile :: bool
  extname :: string
  sizeLabel :: string
  haveXLSX :: bool
  haveExcelJS :: bool
  xlsx_readFile :: "string + workbook"
  exceljs_readFile :: "string + xjs_workbook"

section \<open>Worksheet analysis in the worker (excelWorkerThread.js)\<close>

record analysis =
  an_worksheets :: "string list"
  an_workbook :: loaded
  worksheetInfo :: "ws_info list option"

definition validateFile :: "worker_env \<Rightarrow> io \<Rightarrow> (string + unit) \<times> io" where
  "validateFile env w =
    (let w1 = sendProgress 5 ''Validating file...'' w in
     if \<not> fileExists env then (Inl ''File does not exist'', w1)
     else if \<not> isFile env then (Inl ''Path is not a file'', w1)
     else if extname env \<notin> set [''.xlsx'', ''.xls'', ''.xlsm'']
       then (Inl ''Invalid file type. Only Excel files are supported'', w1)
     else (Inr (), sendProgress 10 (''File size: '' @ sizeLabel env @ '' MB'') w1))"

definition tryExcelJS :: "string option \<Rightarrow> worker_env \<Rightarrow> io \<Rightarrow> (string + analysis) \<times> io" where
  "tryExcelJS previousError env w =
    (let w1 = sendProgress 50 ''Using ExcelJS library...'' w in
     case exceljs_readFile env of
       Inl e \<Rightarrow>
        (Inl (case previousError of
                Some pe \<Rightarrow> ''Failed with both XLSX ('' @ pe @ '') and ExcelJS ('' @ e @ '')''
              | None \<Rightarrow> ''Failed with ExcelJS: '' @ e), w1)
     | Inr wb \<Rightarrow>
        (let w2 = sendProgress 70 ''Extracting worksheet information...'' w1;
             sheets = map xjs_name (worksheets wb);
             w3 = sendProgress 90 (''Found '' @ show_nat (length sheets) @ '' worksheets'') w2;
             w4 = postMessage (WorksheetNames sheets) w3;
             w5 = sendProgress 100 ''Worksheet analysis complete'' w4
         in (Inr \<lparr>an_worksheets = sheets, an_workbook = ExcelJS wb, worksheetInfo = None\<rparr>, w5)))"

definition processWorksheets :: "worker_env \<Rightarrow> io \<Rightarrow> (string + analysis) \<times> io" where
  "processWorksheets env w =
    (let w1 = sendProgress 20 ''Reading Excel file structure...'' w in
     if haveXLSX env then
       (let w2 = sendProgress 30 ''Using XLSX library...'' w1 in
        case xlsx_readFile env of
          Inr wb \<Rightarrow>
           (let w3 = sendProgress 60 ''Extracting worksheet information...'' w2;
                sheets = SheetNames wb;
                w4 = sendProgress 80 (''Found '' @ show_nat (length sheets) @ '' worksheets'') w3;
                w5 = postMessage (WorksheetNames sheets) w4;
                w6 = sendProgress 100 ''Worksheet analysis complete'' w5
            in (Inr \<lparr>an_worksheets = sheets, an_workbook = XLSX wb, worksheetInfo = None\<rparr>, w6))
        | Inl xlsxError \<Rightarrow>
           (let w3 = sendProgress 40 ''XLSX failed, trying alternative method...'' w2 in
            if haveExcelJS env then tryExcelJS (Some xlsxError) env w3
            else (Inl (''Unable to read Excel file with XLSX: '' @ xlsxError), w3)))
     else if haveExcelJS env then tryExcelJS None env w1
     else (Inl ''No Excel processing libraries available'', w1))"

definition complexity_of :: "int \<Rightarrow> complexity" where
  "complexity_of estRows =
    (if estRows > 10000 then large else if estRows > 1000 then medium else small)"

definition xlsx_info :: "string \<Rightarrow> worksheet \<Rightarrow> ws_info" where
  "xlsx_info sheetName ws =
    (let r = ws_range ws;
         estRows = e_r r - s_r r + 1;
         estCols = e_c r - s_c r + 1
     in \<lparr>name = sheetName, accessible = True, estimatedRows = estRows,
         estimatedCols = estCols, complexity = complexity_of estRows\<rparr>)"

text \<open>\<open>worksheet.rowCount || 0\<close> is the count itself: the only falsy count is 0.\<close>

definition xjs_info :: "xjs_worksheet \<Rightarrow> ws_info" where
  "xjs_info ws =
    (let estRows = rowCount ws;
         estCols = columnCount ws
     in \<lparr>name = xjs_name ws, accessible = True, estimatedRows = estRows,
         estimatedCols = estCols, complexity = complexity_of estRows\<rparr>)"

text \<open>
  The loop over the sheet names of the in-memory workbook; a name without a materialised sheet
  makes \<open>worksheet['!ref']\<close> throw, which the enclosing \<open>try\<close> turns into "no analysis".
\<close>

fun xlsx_infos :: "workbook \<Rightarrow> string list \<Rightarrow> ws_info list option" where
  "xlsx_infos wb [] = Some []"
| "xlsx_infos wb (n # ns) =
    (case map_of (Sheets wb) n of
       None \<Rightarrow> None
     | Some ws \<Rightarrow> (case xlsx_infos wb ns of None \<Rightarrow> None | Some is \<Rightarrow> Some (xlsx_info n ws # is)))"

definition analyzeWorksheets :: "analysis \<Rightarrow> io \<Rightarrow> analysis \<times> io" where
  "analyzeWorksheets result w =
    (let w1 = sendProgress 85 ''Analyzing worksheet complexity...'' w;
         infos = (case an_workbook result of
                    XLSX wb \<Rightarrow> xlsx_infos wb (an_worksheets result)
                  | ExcelJS wb \<Rightarrow> Some (map xjs_info (worksheets wb)))
     in case infos of
          None \<Rightarrow> (result, w1)
        | Some is \<Rightarrow> (result\<lparr>worksheetInfo := Some is\<rparr>, postMessage (WorksheetInfos is) w1))"


section \<open>Conversion in the worker (excelWorkerThread.js)\<close>

text \<open>The callback of \<open>row.map\<close> in both writers, and the joined row.\<close>

definition csvCell :: "cell \<Rightarrow> cell" where
  "csvCell c =
    (case c of
       CStr s \<Rightarrow> if needs_quoting s then CStr (wrap_quoted s) else or_empty c
     | _ \<Rightarrow> or_empty c)"

definition csvRow :: "cell list \<Rightarrow> string" where
  "csvRow row = join [comma] (map (\<lambda>c. join_item (csvCell c)) row)"

text \<open>Truthiness of an optional number: null, undefined and 0 are falsy.\<close>

fun truthy :: "int option \<Rightarrow> bool" where
  "truthy None = False"
| "truthy (Some n) = (n \<noteq> 0)"

definition writeCSVSingle :: "cell list list \<Rightarrow> fpath \<Rightarrow> io \<Rightarrow> conv_result \<times> io" where
  "writeCSVSingle rs outputPath w =
    (let w1 = sendProgress 90 ''Writing CSV file...'' w;
         csv = join [newline] (map csvRow rs);
         w2 = writeFileSync outputPath csv w1;
         w3 = sendProgress 100 ''Conversion complete'' w2
     in (\<lparr>totalRows = length rs, files = [\<lparr>path = outputPath, rows = length rs\<rparr>]\<rparr>, w3))"

definition getChunkFilePath :: "fpath \<Rightarrow> nat \<Rightarrow> fpath" where
  "getChunkFilePath originalPath index =
    \<lparr>dir = dir originalPath,
     stem = stem originalPath @ ''_part'' @ show_nat index,
     ext = ext originalPath\<rparr>"

text \<open>The variables of the splitting loop.\<close>

record split_state =
  sp_files :: "file_record list"
  fileIndex :: nat
  currentRows :: "string list"
  currentSize :: int

definition wouldExceedRows :: "int option \<Rightarrow> split_state \<Rightarrow> bool" where
  "wouldExceedRows maxRows st =
    (case maxRows of None \<Rightarrow> False | Some m \<Rightarrow> m \<noteq> 0 \<and> int (length (currentRows st)) \<ge> m)"

definition wouldExceedSize :: "int option \<Rightarrow> split_state \<Rightarrow> int \<Rightarrow> bool" where
  "wouldExceedSize maxSizeBytes st rowSize =
    (case maxSizeBytes of None \<Rightarrow> False | Some m \<Rightarrow> m \<noteq> 0 \<and> currentSize st + rowSize > m)"

text \<open>One pass of the \<open>for\<close> loop, at index \<open>i\<close> of \<open>n\<close> rows.\<close>

definition split_step ::
  "fpath \<Rightarrow> int option \<Rightarrow> int option \<Rightarrow> nat \<Rightarrow> nat \<Rightarrow> cell list \<Rightarrow> split_state \<times> io \<Rightarrow> split_state \<times> io" where
  "split_step outputPath maxRows maxSizeBytes n i row sw =
    (let st = fst sw; w = snd sw;
         line = csvRow row;
         rowSize = int (length line) + 1;
         (st1, w1) =
           (if currentRows st \<noteq> [] \<and> (wouldExceedRows maxRows st \<or> wouldExceedSize maxSizeBytes st rowSize)
            then
              (let filePath = getChunkFilePath outputPath (fileIndex st);
                   csv = join [newline] (currentRows st);
                   wa = writeFileSync filePath csv w;
                   wb = sendProgress (85 + (of_nat i / of_nat n) * 10)
                          (''Created file '' @ show_nat (fileIndex st) @ '' with ''
                             @ show_nat (length (currentRows st)) @ '' rows'') wa
               in (\<lparr>sp_files = sp_files st @ [\<lparr>path = filePath, rows = length (currentRows st)\<rparr>],
                    fileIndex = fileIndex st + 1, currentRows = [], currentSize = 0\<rparr>, wb))
            else (st, w))
     in (st1\<lparr>currentRows := currentRows st1 @ [line], currentSize := currentSize st1 + rowSize\<rparr>, w1))"

fun split_loop ::
  "fpath \<Rightarrow> int option \<Rightarrow> int option \<Rightarrow> nat \<Rightarrow> nat \<Rightarrow> cell list list \<Rightarrow> split_state \<times> io \<Rightarrow> split_state \<times> io" where
  "split_loop outputPath maxRows maxSizeBytes n i [] sw = sw"
| "split_loop outputPath maxRows maxSizeBytes n i (row # rest) sw =
    split_loop outputPath maxRows maxSizeBytes n (Suc i) rest
      (split_step outputPath maxRows maxSizeBytes n i row sw)"

definition writeCSVWithSplitting ::
  "cell list list \<Rightarrow> fpath \<Rightarrow> int option \<Rightarrow> int option \<Rightarrow> io \<Rightarrow> conv_result \<times> io" where
  "writeCSVWithSplitting rs outputPath maxRows maxFileSize w =
    (let maxSizeBytes = (if truthy maxFileSize then Some (the maxFileSize * 1024 * 1024) else None);
         w1 = sendProgress 85 ''Preparing file splitting...'' w;
         (st, w2) = split_loop outputPath maxRows maxSizeBytes (length rs) 0 rs
                      (\<lparr>sp_files = [], fileIndex = 1, currentRows = [], currentSize = 0\<rparr>, w1);
         (fs, w3) =
           (if currentRows st \<noteq> [] then
              (let filePath = (if fileIndex st = 1 then outputPath
                               else getChunkFilePath outputPath (fileIndex st));
                   csv = join [newline] (currentRows st)
               in (sp_files st @ [\<lparr>path = filePath, rows = length (currentRows st)\<rparr>],
                   writeFileSync filePath csv w2))
            else (sp_files st, w2));
         w4 = sendProgress 100 (''Conversion complete - '' @ show_nat (length fs) @ '' file(s) created'') w3
     in (\<lparr>totalRows = length rs, files = fs\<rparr>, w4))"

text \<open>The predicate of both \<open>filter\<close> calls: some cell is neither null, undefined nor ''.\<close>

definition hasContent :: "cell list \<Rightarrow> bool" where
  "hasContent row = list_ex (\<lambda>c. c \<noteq> CNull \<and> c \<noteq> CUndefined \<and> c \<noteq> CStr []) row"

definition writeRows ::
  "cell list list \<Rightarrow> fpath \<Rightarrow> int option \<Rightarrow> int option \<Rightarrow> io \<Rightarrow> conv_result \<times> io" where
  "writeRows nonEmptyRows outputPath maxRows maxFileSize w =
    (if truthy maxRows \<or> truthy maxFileSize
     then writeCSVWithSplitting nonEmptyRows outputPath maxRows maxFileSize w
     else writeCSVSingle nonEmptyRows outputPath w)"

definition convertWithXLSX ::
  "workbook \<Rightarrow> string \<Rightarrow> fpath \<Rightarrow> int option \<Rightarrow> int option \<Rightarrow> io \<Rightarrow> (string + conv_result) \<times> io" where
  "convertWithXLSX wb sheetName outputPath maxRows maxFileSize w =
    (case map_of (Sheets wb) sheetName of
       None \<Rightarrow> (Inl (''Worksheet \"'' @ sheetName @ ''\" not found''), w)
     | Some ws \<Rightarrow>
        (let w1 = sendProgress 40 ''Converting to CSV format...'' w;
             data = ws_json ws
         in if data = [] then (Inl ''No data found in worksheet'', w1)
            else
              (let w2 = sendProgress 60 ''Processing rows...'' w1;
                   nonEmptyRows = filter hasContent data
               in if nonEmptyRows = [] then (Inl ''No non-empty rows found'', w2)
                  else
                    (let w3 = sendProgress 80 ''Writing CSV file...'' w2;
                         (r, w4) = writeRows nonEmptyRows outputPath maxRows maxFileSize w3
                     in (Inr r, w4)))))"

definition convertWithExcelJS ::
  "xjs_workbook \<Rightarrow> string \<Rightarrow> fpath \<Rightarrow> int option \<Rightarrow> int option \<Rightarrow> io \<Rightarrow> (string + conv_result) \<times> io" where
  "convertWithExcelJS wb sheetName outputPath maxRows maxFileSize w =
    (case getWorksheet wb sheetName of
       None \<Rightarrow> (Inl (''Worksheet \"'' @ sheetName @ ''\" not found''), w)
     | Some ws \<Rightarrow>
        (let w1 = sendProgress 40 ''Converting to CSV format...'' w;
             rs = map (drop 1) (rowValues ws)
         in if rs = [] then (Inl ''No data found in worksheet'', w1)
            else
              (let w2 = sendProgress 60 ''Processing rows...'' w1;
                   nonEmptyRows = filter hasContent rs;
                   w3 = sendProgress 80 ''Writing CSV file...'' w2;
                   (r, w4) = writeRows nonEmptyRows outputPath maxRows maxFileSize w3
               in (Inr r, w4))))"

definition loadWorkbook :: "worker_env \<Rightarrow> io \<Rightarrow> (string + loaded) \<times> io" where
  "loadWorkbook env w =
    (let viaExcelJS = (\<lambda>w'.
           if haveExcelJS env then
             (let w1 = sendProgress 25 ''Loading with ExcelJS...'' w' in
              case exceljs_readFile env of
                Inl e \<Rightarrow> (Inl e, w1)
              | Inr wb \<Rightarrow> (Inr (ExcelJS wb), w1))
           else (Inl ''No Excel libraries available for conversion'', w'))
     in if haveXLSX env then
          (let w1 = sendProgress 25 ''Loading with XLSX...'' w in
           case xlsx_readFile env of
             Inr wb \<Rightarrow> (Inr (XLSX wb), w1)
           | Inl e \<Rightarrow> viaExcelJS w1)
        else viaExcelJS w)"

definition convertToCSV ::
  "worker_env \<Rightarrow> string \<Rightarrow> fpath \<Rightarrow> int option \<Rightarrow> int option \<Rightarrow> io \<Rightarrow> (string + conv_result) \<times> io" where
  "convertToCSV env sheetName outputPath maxRows maxFileSize w =
    (let rethrow = (\<lambda>e. ''Failed to convert '' @ sheetName @ '': '' @ e);
         w1 = sendProgress 10 (''Starting conversion of '' @ sheetName @ ''...'') w;
         w2 = sendProgress 20 ''Loading Excel file...'' w1
     in case loadWorkbook env w2 of
          (Inl e, w3) \<Rightarrow> (Inl (rethrow e), w3)
        | (Inr book, w3) \<Rightarrow>
           (let w4 = sendProgress 30 (''Processing worksheet '' @ sheetName @ ''...'') w3;
                (r, w5) = (case book of
                             XLSX wb \<Rightarrow> convertWithXLSX wb sheetName outputPath maxRows maxFileSize w4
                           | ExcelJS wb \<Rightarrow> convertWithExcelJS wb sheetName outputPath maxRows maxFileSize w4)
            in (case r of Inl e \<Rightarrow> (Inl (rethrow e), w5) | Inr res \<Rightarrow> (Inr res, w5))))"

datatype operation =
    GetWorksheets
  | ConvertToCSV string fpath "int option" "int option"
  | UnknownOperation string

text \<open>\<open>ExcelProcessor.process\<close>: every error ends in one \<open>error\<close> message.\<close>

definition process :: "worker_env \<Rightarrow> operation \<Rightarrow> io \<Rightarrow> io" where
  "process env operation w =
    (case operation of
       GetWorksheets \<Rightarrow>
        (let w1 = sendProgress 0 ''Starting Excel file analysis...'' w in
         case validateFile env w1 of
           (Inl e, w2) \<Rightarrow> postMessage (Failure e) w2
         | (Inr fileInfo, w2) \<Rightarrow>
            (case processWorksheets env w2 of
               (Inl e, w3) \<Rightarrow> postMessage (Failure e) w3
             | (Inr result, w3) \<Rightarrow>
                (let (finalResult, w4) = analyzeWorksheets result w3
                 in postMessage (Success (Analysed (method_name (an_workbook finalResult))
                                   (an_worksheets finalResult) (worksheetInfo finalResult))) w4)))
     | ConvertToCSV sheetName outputPath maxRows maxFileSize \<Rightarrow>
        (let w1 = sendProgress 0 ''Starting CSV conversion...'' w in
         case validateFile env w1 of
           (Inl e, w2) \<Rightarrow> postMessage (Failure e) w2
         | (Inr fileInfo, w2) \<Rightarrow>
            (case convertToCSV env sheetName outputPath maxRows maxFileSize w2 of
               (Inl e, w3) \<Rightarrow> postMessage (Failure e) w3
             | (Inr result, w3) \<Rightarrow> postMessage (Success (Converted result)) w3))
     | UnknownOperation n \<Rightarrow> postMessage (Failure (''Unknown operation: '' @ n)) w)"

definition percents :: "message list \<Rightarrow> rat list" where
  "percents ms = concat (map (\<lambda>m. case m of Progress p _ \<Rightarrow> [p] | _ \<Rightarrow> []) ms)"

definition no_io :: io where
  "no_io = \<lparr>posted = [], disk = []\<rparr>"


section \<open>The conversion request handler (\<open>convert-file\<close>)\<close>

text \<open>
  The escape \<open>\\n\<close> as the handlers and converter.js write it inside their string literals:
  a backslash followed by the letter n.
\<close>

definition backslash_n :: string where
  "backslash_n = [CHR 0x5C, CHR ''n'']"

datatype response =
    Done nat "file_record list" "string list option"
  | Failed string

fun success :: "response \<Rightarrow> bool" where
  "success (Done _ _ _) = True"
| "success (Failed _) = False"

fun errors_of :: "response \<Rightarrow> string list option" where
  "errors_of (Done _ _ es) = es"
| "errors_of (Failed _) = None"

record batch =
  allFilesCreated :: "file_record list"
  totalRowsAll :: nat
  errors :: "string list"

text \<open>\<open>path.join(validatedOutputDir, `${baseName}_${sheetName}.csv`)\<close>\<close>

definition sheet_path :: "string \<Rightarrow> string \<Rightarrow> string \<Rightarrow> fpath" where
  "sheet_path validatedOutputDir baseName sheetName =
    \<lparr>dir = validatedOutputDir, stem = baseName @ ''_'' @ sheetName, ext = ''.csv''\<rparr>"

text \<open>
  One pass of the loop over the validated worksheet names. \<open>convert\<close> is the awaited
  conversion of one worksheet: it resolves with a result or rejects with a message. The
  timer, the log and the progress notice to the window leave the batch as it is.
\<close>

definition sheet_step ::
  "(string \<Rightarrow> fpath \<Rightarrow> string + conv_result) \<Rightarrow> string \<Rightarrow> string \<Rightarrow> batch \<Rightarrow> string \<Rightarrow> batch" where
  "sheet_step convert validatedOutputDir baseName b sheetName =
    (let outputPath = sheet_path validatedOutputDir baseName sheetName
     in case convert sheetName outputPath of
          Inr result \<Rightarrow>
            b\<lparr>allFilesCreated := allFilesCreated b @ files result,
              totalRowsAll := totalRowsAll b + totalRows result\<rparr>
        | Inl e \<Rightarrow> b\<lparr>errors := errors b @ [sheetName @ '': '' @ e]\<rparr>)"

definition convert_sheets ::
  "(string \<Rightarrow> fpath \<Rightarrow> string + conv_result) \<Rightarrow> string \<Rightarrow> string \<Rightarrow> string list \<Rightarrow> batch" where
  "convert_sheets convert validatedOutputDir baseName validatedWorksheets =
    foldl (sheet_step convert validatedOutputDir baseName)
      \<lparr>allFilesCreated = [], totalRowsAll = 0, errors = []\<rparr> validatedWorksheets"

text \<open>
  The handler after its input validation (path, directory and sheet-name checks are the
  security module's): an empty selection is refused, then every worksheet is converted.
\<close>

definition convert_file ::
  "(string \<Rightarrow> fpath \<Rightarrow> string + conv_result) \<Rightarrow> string \<Rightarrow> string \<Rightarrow> string list \<Rightarrow> response" where
  "convert_file convert validatedOutputDir baseName validatedWorksheets =
    (if validatedWorksheets = [] then Failed ''Please select at least one worksheet to convert''
     else
       (let b = convert_sheets convert validatedOutputDir baseName validatedWorksheets
        in if errors b \<noteq> [] \<and> allFilesCreated b = []
           then Failed (''All worksheets failed to convert:'' @ backslash_n @ join backslash_n (errors b))
           else Done (totalRowsAll b) (allFilesCreated b)
                  (if errors b \<noteq> [] then Some (errors b) else None)))"

text \<open>
  \<open>excelWorkerManager.convertWorksheetToCSV\<close>: a fresh worker runs the conversion; its
  \<open>success\<close> message resolves the promise and its \<open>error\<close> message rejects it. A worker that
  posts neither rejects it by its exit; no conversion job does (lemma \<open>conversion_settles\<close>).
\<close>

fun settle :: "message list \<Rightarrow> (string + conv_result) option" where
  "settle [] = None"
| "settle (Success (Converted r) # ms) = Some (Inr r)"
| "settle (Failure e # ms) = Some (Inl e)"
| "settle (m # ms) = settle ms"

definition convertWorksheetToCSV ::
  "worker_env \<Rightarrow> int option \<Rightarrow> int option \<Rightarrow> string \<Rightarrow> fpath \<Rightarrow> string + conv_result" where
  "convertWorksheetToCSV env maxRows maxFileSize sheetName outputPath =
    (case settle (posted (process env (ConvertToCSV sheetName outputPath maxRows maxFileSize) no_io)) of
       Some r \<Rightarrow> r
     | None \<Rightarrow> Inl ''Worker exited'')"

definition convert_file_background ::
  "worker_env \<Rightarrow> int option \<Rightarrow> int option \<Rightarrow> string \<Rightarrow> string \<Rightarrow> string list \<Rightarrow> response" where
  "convert_file_background env maxRows maxFileSize =
    convert_file (convertWorksheetToCSV env maxRows maxFileSize)"

section \<open>The direct converter (converter.js)\<close>

text \<open>\<open>s.includes(t)\<close>\<close>

fun starts_with :: "string \<Rightarrow> string \<Rightarrow> bool" where
  "starts_with s [] = True"
| "starts_with [] (t # ts) = False"
| "starts_with (c # cs) (t # ts) = (c = t \<and> starts_with cs ts)"

fun js_includes :: "string \<Rightarrow> string \<Rightarrow> bool" where
  "js_includes [] t = (t = [])"
| "js_includes (c # cs) t = (starts_with (c # cs) t \<or> js_includes cs t)"

definition converter_cell :: "cell \<Rightarrow> cell" where
  "converter_cell c =
    (case c of
       CStr s \<Rightarrow>
         if js_includes s [comma] \<or> js_includes s [dquote] \<or> js_includes s backslash_n
         then CStr (wrap_quoted s) else or_empty c
     | _ \<Rightarrow> or_empty c)"

text \<open>The row callback of \<open>convertWithXLSX\<close>: \<open>row.map(...).join(',')\<close>.\<close>

definition converter_row :: "cell list \<Rightarrow> string" where
  "converter_row row = join [comma] (map (\<lambda>c. join_item (converter_cell c)) row)"

definition converter_convertWithXLSX ::
  "(string + workbook) \<Rightarrow> string \<Rightarrow> fpath \<Rightarrow> io \<Rightarrow> (string + conv_result) \<times> io" where
  "converter_convertWithXLSX readFile sheetName outputFile w =
    (case readFile of
       Inl e \<Rightarrow> (Inl e, w)
     | Inr wb \<Rightarrow>
        (case map_of (Sheets wb) sheetName of
           None \<Rightarrow> (Inl (''Worksheet \"'' @ sheetName @ ''\" not found''), w)
         | Some ws \<Rightarrow>
            (let data = ws_json ws
             in if data = [] then (Inl ''No data found in worksheet'', w)
                else
                  (let nonEmptyRows = filter hasContent data
                   in if nonEmptyRows = [] then (Inl ''No non-empty rows found'', w)
                      else
                        (let csv = join backslash_n (map converter_row nonEmptyRows)
                         in (Inr \<lparr>totalRows = length nonEmptyRows,
                                  files = [\<lparr>path = outputFile, rows = length nonEmptyRows\<rparr>]\<rparr>,
                             writeFileSync outputFile csv w))))))"

text \<open>
  \<open>convertSingleWorksheet\<close>. Its two fallbacks, \<open>convertWithExcelJS\<close> and \<open>convertWithPython\<close>,
  enter as what they return and write for the output file; \<open>output\<close> is
  \<open>outputDir || path.dirname(inputFile)\<close>.
\<close>

definition converter_convertSingleWorksheet ::
  "(string + workbook) \<Rightarrow> bool \<Rightarrow> (fpath \<Rightarrow> io \<Rightarrow> (string + conv_result) \<times> io) \<Rightarrow>
   (fpath \<Rightarrow> io \<Rightarrow> (string + conv_result) \<times> io) \<Rightarrow> string \<Rightarrow> string \<Rightarrow> string \<Rightarrow> io \<Rightarrow>
   (string + conv_result) \<times> io" where
  "converter_convertSingleWorksheet readFile withExcelJS viaExcelJS viaPython sheetName output baseName w =
    (case readFile of
       Inl e \<Rightarrow> (Inl (''Failed to read workbook: '' @ e), w)
     | Inr wb \<Rightarrow>
        (let sheetExists = (sheetName \<in> set (SheetNames wb));
             sheetAccessible = (sheetName \<in> set (map fst (Sheets wb)));
             outputFile = sheet_path output baseName sheetName
         in if sheetExists \<and> \<not> sheetAccessible then viaPython outputFile w
            else if \<not> sheetExists then (Inl (''Worksheet \"'' @ sheetName @ ''\" not found in file''), w)
            else (case converter_convertWithXLSX readFile sheetName outputFile w of
                    (Inr r, w1) \<Rightarrow> (Inr r, w1)
                  | (Inl xlsxError, w1) \<Rightarrow>
                      (if withExcelJS
                       then (case viaExcelJS outputFile w1 of
                               (Inr r, w2) \<Rightarrow> (Inr r, w2)
                             | (Inl exceljsError, w2) \<Rightarrow> viaPython outputFile w2)
                       else viaPython outputFile w1))))"


section \<open>CSV cells and lines (escapeCSVCell, parseCsvLine)\<close>

definition escapeCSVCell :: "cell \<Rightarrow> string" where
  "escapeCSVCell c =
    (let cellStr = js_String (or_empty c)
     in if needs_quoting cellStr then wrap_quoted cellStr else cellStr)"

text \<open>
  The \<open>while\<close> loop of \<open>parseCsvLine\<close> on the characters from index \<open>i\<close> on;
  \<open>line[i + 1]\<close> past the end is undefined and equals no character.
\<close>

fun parse_from :: "string \<Rightarrow> string list \<Rightarrow> string \<Rightarrow> bool \<Rightarrow> string list" where
  "parse_from [] result current inQuotes = result @ [current]"
| "parse_from [c] result current inQuotes =
    (if c = dquote then parse_from [] result current (\<not> inQuotes)
     else if c = comma \<and> \<not> inQuotes then parse_from [] (result @ [current]) [] inQuotes
     else parse_from [] result (current @ [c]) inQuotes)"
| "parse_from (c # d # rest) result current inQuotes =
    (if c = dquote then
       (if inQuotes \<and> d = dquote then parse_from rest result (current @ [dquote]) inQuotes
        else parse_from (d # rest) result current (\<not> inQuotes))
     else if c = comma \<and> \<not> inQuotes then parse_from (d # rest) (result @ [current]) [] inQuotes
     else parse_from (d # rest) result (current @ [c]) inQuotes)"

definition parseCsvLine :: "string \<Rightarrow> string list" where
  "parseCsvLine line = parse_from line [] [] False"


section \<open>The streaming converter (convertSheetStreamingExcelJS)\<close>

text \<open>
  A \<open>cell.value\<close> of the streaming parser: null or undefined, a date (with its
  \<open>toISOString()\<close>), another object (with its \<open>text\<close> property, when it has one, and its
  \<open>String(...)\<close>), or a string, a number or a boolean.
\<close>

datatype cell_value =
    Absent
  | ADate string
  | AnObject "string option" string
  | AString string
  | ANumber int
  | ABoolean bool

text \<open>The callback of \<open>row.eachCell\<close>: the value pushed to \<open>rowValues\<close>, always a string.\<close>

fun value_text :: "cell_value \<Rightarrow> string" where
  "value_text Absent = []"
| "value_text (ADate isoString) = isoString"
| "value_text (AnObject text str) = (case text of Some t \<Rightarrow> if t = [] then str else t | None \<Rightarrow> str)"
| "value_text (AString s) = s"
| "value_text (ANumber n) = js_String (CNum n)"
| "value_text (ABoolean b) = js_String (CBool b)"

text \<open>The \<open>some\<close> test on \<open>rowValues\<close> that decides whether the row is written.\<close>

definition row_hasContent :: "string list \<Rightarrow> bool" where
  "row_hasContent rowVals =
    list_ex (\<lambda>cell. let cellStr = trim (js_String (or_empty (CStr cell)))
                    in cellStr \<noteq> [] \<and> cellStr \<noteq> ''null'' \<and> cellStr \<noteq> ''undefined'') rowVals"

text \<open>\<open>rowValues.map(escapeCSVCell).join(',')\<close>\<close>

definition csv_fields :: "string list \<Rightarrow> string" where
  "csv_fields rowVals = join [comma] (map (\<lambda>v. escapeCSVCell (CStr v)) rowVals)"

text \<open>The \<open>csvRow\<close> of a row of cells; a row without content is skipped and has none.\<close>

definition streaming_line :: "cell_value list \<Rightarrow> string option" where
  "streaming_line cells =
    (let rowVals = map value_text cells
     in if \<not> row_hasContent rowVals then None
        else Some (csv_fields rowVals @ [newline]))"

text \<open>The variables of the conversion, and what has been written to which file.\<close>

record streaming =
  nonEmptyRowCount :: nat
  st_fileIndex :: nat
  currentFileRows :: nat
  writeStream :: "fpath option"
  filesCreated :: "file_record list"
  streamed :: "(fpath \<times> string) list"

text \<open>\<open>getWriteStream\<close>: the stream to write to, which is a new file when there is none yet or
  the row limit is reached.\<close>

definition getWriteStream :: "string \<Rightarrow> string \<Rightarrow> string \<Rightarrow> int option \<Rightarrow> streaming \<Rightarrow> fpath \<times> streaming" where
  "getWriteStream output finalBaseName sheetName maxRows st =
    (case (if truthy maxRows \<and> int (currentFileRows st) \<ge> the maxRows then None else writeStream st) of
       Some stream \<Rightarrow> (stream, st)
     | None \<Rightarrow>
        (let st1 = (if writeStream st \<noteq> None
                    then st\<lparr>st_fileIndex := st_fileIndex st + 1, currentFileRows := 0\<rparr> else st);
             fileName = (if truthy maxRows \<and> st_fileIndex st1 > 1
                         then finalBaseName @ ''_'' @ sheetName @ ''_part'' @ show_nat (st_fileIndex st1)
                         else finalBaseName @ ''_'' @ sheetName);
             filePath = \<lparr>dir = output, stem = fileName, ext = ''.csv''\<rparr>
         in (filePath, st1\<lparr>writeStream := Some filePath,
                           filesCreated := filesCreated st1 @ [\<lparr>path = filePath, rows = 0\<rparr>]\<rparr>)))"

text \<open>\<open>filesCreated[filesCreated.length - 1].rows = currentFileRows\<close>\<close>

definition set_last_rows :: "nat \<Rightarrow> file_record list \<Rightarrow> file_record list" where
  "set_last_rows n fs = (case rev fs of [] \<Rightarrow> [] | f # before \<Rightarrow> rev before @ [f\<lparr>rows := n\<rparr>])"

text \<open>The callback of \<open>worksheet.eachRow\<close>.\<close>

definition streaming_row ::
  "string \<Rightarrow> string \<Rightarrow> string \<Rightarrow> int option \<Rightarrow> streaming \<Rightarrow> cell_value list \<Rightarrow> streaming" where
  "streaming_row output finalBaseName sheetName maxRows st cells =
    (case streaming_line cells of
       None \<Rightarrow> st
     | Some csvLine \<Rightarrow>
        (let st1 = st\<lparr>nonEmptyRowCount := nonEmptyRowCount st + 1,
                      currentFileRows := currentFileRows st + 1\<rparr>;
             (stream, st2) = getWriteStream output finalBaseName sheetName maxRows st1;
             st3 = st2\<lparr>streamed := streamed st2 @ [(stream, csvLine)]\<rparr>
         in st3\<lparr>filesCreated := set_last_rows (currentFileRows st3) (filesCreated st3)\<rparr>))"

text \<open>
  The conversion, for the rows \<open>eachRow\<close> visits in each sheet of the workbook the streaming
  parser reads; \<open>output\<close> and \<open>finalBaseName\<close> are the two names the function computes first.
\<close>

definition convertSheetStreamingExcelJS ::
  "bool \<Rightarrow> (string + (string \<times> cell_value list list) list) \<Rightarrow> string \<Rightarrow> string \<Rightarrow> int option \<Rightarrow> string \<Rightarrow>
   string + conv_result \<times> (fpath \<times> string) list" where
  "convertSheetStreamingExcelJS withExcelJS readFile sheetName output maxRows finalBaseName =
    (if \<not> withExcelJS then Inl ''ExcelJS not available''
     else case readFile of
            Inl e \<Rightarrow> Inl e
          | Inr sheets \<Rightarrow>
             (case map_of sheets sheetName of
                None \<Rightarrow> Inl (''Sheet \"'' @ sheetName @ ''\" not found in workbook'')
              | Some visited \<Rightarrow>
                 (let st = foldl (streaming_row output finalBaseName sheetName maxRows)
                             \<lparr>nonEmptyRowCount = 0, st_fileIndex = 1, currentFileRows = 0,
                              writeStream = None, filesCreated = [], streamed = []\<rparr> visited
                  in Inr (\<lparr>totalRows = nonEmptyRowCount st, files = filesCreated st\<rparr>, streamed st))))"


section \<open>The streaming paginated reader (StreamingFileReader)\<close>

datatype file_type = csv | excel

record column =
  col_index :: int
  col_name :: string
  col_type :: string

record reader =
  currentFile :: "string option"
  currentSheet :: "string option"
  fileType :: "file_type option"
  rd_totalRows :: int
  columns :: "column list"

text \<open>The reader the constructor leaves.\<close>

definition new_reader :: reader where
  "new_reader = \<lparr>currentFile = None, currentSheet = None, fileType = None, rd_totalRows = 0, columns = []\<rparr>"

record page_row =
  rowNumber :: int
  data :: "(string \<times> string) list"

record page =
  pg_rows :: "page_row list"
  startRow :: int
  endRow :: int
  pg_totalRows :: int
  hasMore :: bool

text \<open>
  How a run of the external engine ends, in the order the two \<open>spawn\<close> wrappers tell the cases
  apart: the process does not start, it exits with a code other than 0 (with the text of its
  standard error), its output is not JSON, the JSON reports a failure, or it reports a result.
\<close>

datatype 'a engine_run =
    SpawnFailed string
  | ExitedNonZero string
  | Unparsable string
  | ReportedError string
  | Reported 'a

definition engine_outcome :: "'a engine_run \<Rightarrow> string + 'a" where
  "engine_outcome run =
    (case run of
       SpawnFailed e \<Rightarrow> Inl (''Failed to start Python process: '' @ e)
     | ExitedNonZero errorOutput \<Rightarrow>
         Inl (''Python process failed: '' @ (if errorOutput = [] then ''Unknown error'' else errorOutput))
     | Unparsable e \<Rightarrow> Inl (''Failed to parse Python output: '' @ e)
     | ReportedError e \<Rightarrow> Inl e
     | Reported r \<Rightarrow> Inr r)"

record engine_sheet =
  es_name :: string
  es_accessible :: bool

record engine_sheet_info =
  ei_totalRows :: int
  ei_columns :: "column list"
  ei_sheetName :: string

text \<open>
  What the file system, the line reader, the in-memory parser and the external engine report
  for the file a path names: \<open>path.resolve\<close> of the path, \<open>fs.existsSync\<close>,
  \<open>fs.statSync(...).isFile()\<close>, \<open>path.extname(...).toLowerCase()\<close>, the size in bytes, the
  lines \<open>readline\<close> delivers, what \<open>XLSX.readFile\<close> returns or throws, and how the engine's
  two scripts end (the second for each sheet name).
\<close>

record viewer_file =
  vf_resolved :: string
  vf_exists :: bool
  vf_isFile :: bool
  vf_extname :: string
  vf_size :: int
  vf_lines :: "string list"
  vf_xlsx :: "string + workbook"
  vf_engine_sheets :: "engine_sheet list engine_run"
  vf_engine_sheet :: "string \<Rightarrow> engine_sheet_info engine_run"

text \<open>\<open>validateFilePath\<close> of security.js, which the handler and the reader both call first.\<close>

definition validateFilePath :: "viewer_file \<Rightarrow> string \<Rightarrow> string + string" where
  "validateFilePath f filePath =
    (if filePath = [] then Inl ''Invalid file path''
     else if \<not> vf_exists f then Inl ''File does not exist''
     else if \<not> vf_isFile f then Inl ''Path is not a file''
     else if vf_extname f \<notin> set [''.xlsx'', ''.xls'', ''.xlsm'']
       then Inl ''Invalid file type. Only Excel files (.xlsx, .xls, .xlsm) are allowed''
     else Inr (vf_resolved f))"

text \<open>\<open>fileSizeMB > 200\<close> with \<open>fileSizeMB = size / (1024 * 1024)\<close>.\<close>

definition large_file :: "viewer_file \<Rightarrow> bool" where
  "large_file f = (vf_size f > 200 * (1024 * 1024))"

text \<open>\<open>rowData[key] = value\<close> on an object whose keys are kept in insertion order.\<close>

fun assign :: "string \<Rightarrow> string \<Rightarrow> (string \<times> string) list \<Rightarrow> (string \<times> string) list" where
  "assign k v [] = [(k, v)]"
| "assign k v ((k', v') # kvs) = (if k' = k then (k, v) # kvs else (k', v') # assign k v kvs)"

text \<open>\<open>line.trim()\<close> is truthy when some character is not white space.\<close>

definition trim_truthy :: "string \<Rightarrow> bool" where
  "trim_truthy line = list_ex (\<lambda>c. \<not> is_space c) line"

text \<open>The header callback: \<open>header || `Column ${index + 1}`\<close>.\<close>

definition header_columns :: "string list \<Rightarrow> column list" where
  "header_columns headers =
    map (\<lambda>(index, header).
           \<lparr>col_index = int index,
            col_name = (if header = [] then ''Column '' @ show_nat (index + 1) else header),
            col_type = ''text''\<rparr>)
        (enumerate 0 headers)"

text \<open>The variables of \<open>analyzeCsvFile\<close> while the lines arrive.\<close>

record csv_analysis =
  rowCount :: int
  headersFound :: bool
  an_columns :: "column list"

definition analyze_line :: "csv_analysis \<Rightarrow> string \<Rightarrow> csv_analysis" where
  "analyze_line a line =
    (let a1 = a\<lparr>rowCount := rowCount a + 1\<rparr>
     in if \<not> headersFound a1 \<and> trim_truthy line
        then a1\<lparr>an_columns := header_columns (parseCsvLine line), headersFound := True\<rparr>
        else a1)"

text \<open>
  \<open>analyzeCsvFile\<close> over the lines of the file (a read error of the stream, which rejects, is
  outside the model, here and in \<open>readCsvPage\<close>).
\<close>

definition analyzeCsvFile :: "reader \<Rightarrow> string list \<Rightarrow> reader" where
  "analyzeCsvFile rd lines =
    (let a = foldl analyze_line \<lparr>rowCount = 0, headersFound = False, an_columns = columns rd\<rparr> lines
     in rd\<lparr>columns := an_columns a, rd_totalRows := max 0 (rowCount a - 1)\<rparr>)"

text \<open>
  \<open>setExcelSheetPython\<close>: the reader's fields are assigned only when the engine reports a
  result.
\<close>

definition setExcelSheetPython :: "reader \<Rightarrow> viewer_file \<Rightarrow> string \<Rightarrow> string + reader" where
  "setExcelSheetPython rd f sheetName =
    (case engine_outcome (vf_engine_sheet f sheetName) of
       Inl e \<Rightarrow> Inl e
     | Inr r \<Rightarrow> Inr (rd\<lparr>currentSheet := Some (ei_sheetName r), rd_totalRows := ei_totalRows r,
                        columns := ei_columns r\<rparr>))"

text \<open>The header loop of \<open>setExcelSheet\<close>: \<open>cell ? String(cell.v) : `Column ${col + 1}`\<close>.\<close>

definition sheet_columns :: "worksheet \<Rightarrow> column list" where
  "sheet_columns ws =
    map (\<lambda>col. \<lparr>col_index = col,
                col_name = (case map_of (ws_cells ws) (s_r (ws_range ws), col) of
                              Some v \<Rightarrow> js_String v
                            | None \<Rightarrow> ''Column '' @ show_int (col + 1)),
                col_type = ''text''\<rparr>)
        [s_c (ws_range ws)..e_c (ws_range ws)]"

text \<open>
  \<open>setExcelSheet\<close> on a reader whose current file is \<open>f\<close>. Whatever the \<open>try\<close> block throws,
  the engine's own failure on a large file included, sends it to the engine (once more);
  nothing is assigned before the last statement that can throw, so a failure leaves the
  reader as it was.
\<close>

definition setExcelSheet :: "reader \<Rightarrow> viewer_file \<Rightarrow> string \<Rightarrow> string + reader" where
  "setExcelSheet rd f sheetName =
    (let attempt =
           (if large_file f then setExcelSheetPython rd f sheetName
            else case vf_xlsx f of
                   Inl e \<Rightarrow> Inl e
                 | Inr wb \<Rightarrow>
                    (case map_of (Sheets wb) sheetName of
                       None \<Rightarrow> Inl (''Worksheet '' @ [CHR 0x27] @ sheetName @ [CHR 0x27] @ '' not found'')
                     | Some ws \<Rightarrow>
                        Inr (rd\<lparr>currentSheet := Some sheetName,
                                rd_totalRows := max 0 (e_r (ws_range ws) - s_r (ws_range ws)),
                                columns := sheet_columns ws\<rparr>)))
     in case attempt of
          Inr rd' \<Rightarrow> Inr rd'
        | Inl e \<Rightarrow>
           (case setExcelSheetPython rd f sheetName of
              Inr rd' \<Rightarrow> Inr rd'
            | Inl pythonError \<Rightarrow>
                Inl (''Failed to set Excel sheet: '' @ e @ ''. Python fallback also failed: '' @ pythonError)))"

text \<open>\<open>analyzeExcelFile\<close>; an empty first sheet name is falsy like a missing one.\<close>

definition analyzeExcelFile :: "reader \<Rightarrow> viewer_file \<Rightarrow> string + reader" where
  "analyzeExcelFile rd f =
    (let rethrow = (\<lambda>e. ''Failed to analyze Excel file: '' @ e)
     in case vf_xlsx f of
          Inl e \<Rightarrow> Inl (rethrow e)
        | Inr wb \<Rightarrow>
           (case SheetNames wb of
              [] \<Rightarrow> Inl (rethrow ''No worksheets found in Excel file'')
            | sheetName # others \<Rightarrow>
               if sheetName = [] then Inl (rethrow ''No worksheets found in Excel file'')
               else (case setExcelSheet rd f sheetName of
                       Inl e \<Rightarrow> Inl (rethrow e)
                     | Inr rd' \<Rightarrow> Inr rd')))"

definition analyzeExcelFilePython :: "reader \<Rightarrow> viewer_file \<Rightarrow> string + reader" where
  "analyzeExcelFilePython rd f =
    (let rethrow = (\<lambda>e. ''Failed to analyze Excel file with Python: '' @ e)
     in case engine_outcome (vf_engine_sheets f) of
          Inl e \<Rightarrow> Inl (rethrow e)
        | Inr sheets \<Rightarrow>
           (case sheets of
              [] \<Rightarrow> Inl (rethrow ''No worksheets found in Excel file'')
            | firstSheet # others \<Rightarrow>
               (case setExcelSheetPython rd f (es_name firstSheet) of
                  Inl e \<Rightarrow> Inl (rethrow e)
                | Inr rd' \<Rightarrow> Inr rd')))"

text \<open>
  The sheet list of the reply: the names, with the engine's \<open>accessible\<close> flag where the
  engine listed them (\<open>estimated\<close> is true in every entry). A failure of both the parser and
  the engine gives the empty list.
\<close>

record sheet_entry =
  se_name :: string
  se_accessible :: "bool option"

definition getExcelSheets :: "reader \<Rightarrow> viewer_file \<Rightarrow> sheet_entry list option" where
  "getExcelSheets rd f =
    (if fileType rd \<noteq> Some excel then None
     else
       (let viaEngine =
              (case engine_outcome (vf_engine_sheets f) of
                 Inl e \<Rightarrow> []
               | Inr sheets \<Rightarrow>
                   map (\<lambda>s. \<lparr>se_name = es_name s, se_accessible = Some (es_accessible s)\<rparr>) sheets)
        in if large_file f then Some viaEngine
           else case vf_xlsx f of
                  Inr wb \<Rightarrow> Some (map (\<lambda>n. \<lparr>se_name = n, se_accessible = None\<rparr>) (SheetNames wb))
                | Inl e \<Rightarrow> Some viaEngine))"

record init_result =
  ir_fileType :: "file_type option"
  ir_totalRows :: int
  ir_columns :: "column list"
  ir_sheets :: "sheet_entry list option"

text \<open>
  \<open>initializeFile\<close>: the reply or the error thrown, and the reader as the call leaves it. The
  path is validated first; the extension is then looked at again.
\<close>

definition initializeFile :: "reader \<Rightarrow> viewer_file \<Rightarrow> string \<Rightarrow> (string + init_result) \<times> reader" where
  "initializeFile rd f filePath =
    (case validateFilePath f filePath of
       Inl e \<Rightarrow> (Inl e, rd)
     | Inr validatedPath \<Rightarrow>
        (let rd1 = rd\<lparr>currentFile := Some validatedPath\<rparr>;
             ext = vf_extname f;
             reply = (\<lambda>r. \<lparr>ir_fileType = fileType r, ir_totalRows = rd_totalRows r,
                            ir_columns = columns r, ir_sheets = getExcelSheets r f\<rparr>)
         in if ext = ''.csv'' then
              (let rd2 = analyzeCsvFile (rd1\<lparr>fileType := Some csv\<rparr>) (vf_lines f)
               in (Inr (reply rd2), rd2))
            else if ext \<in> set [''.xlsx'', ''.xls'', ''.xlsm''] then
              (let rd2 = rd1\<lparr>fileType := Some excel\<rparr>
               in case (if large_file f then analyzeExcelFilePython rd2 f else analyzeExcelFile rd2 f) of
                    Inl e \<Rightarrow> (Inl e, rd2)
                  | Inr rd3 \<Rightarrow> (Inr (reply rd3), rd3))
            else (Inl ''Unsupported file type. Only CSV and Excel files are supported.'', rd1)))"

text \<open>The variables of \<open>readCsvPage\<close> while the lines arrive.\<close>

record csv_scan =
  sc_rows :: "page_row list"
  currentRow :: int
  foundRows :: int

definition value_at :: "string list \<Rightarrow> nat \<Rightarrow> string" where
  "value_at vs index = (if index < length vs then vs ! index else [])"

definition csv_rowData :: "column list \<Rightarrow> string list \<Rightarrow> (string \<times> string) list" where
  "csv_rowData cols vs =
    foldl (\<lambda>rowData (index, col). assign (col_name col) (value_at vs index) rowData) []
      (enumerate 0 cols)"

text \<open>
  The \<open>line\<close> listener; the flag says that it called \<open>rl.close()\<close>. \<open>parseCsvLine\<close> has no
  throwing path, so nothing reaches the \<open>catch\<close> that would skip a row. The scan ends at the
  close; a line delivered after it would find \<open>foundRows < pageSize\<close> false and add nothing.
\<close>

definition page_line :: "reader \<Rightarrow> int \<Rightarrow> int \<Rightarrow> string \<Rightarrow> csv_scan \<Rightarrow> csv_scan \<times> bool" where
  "page_line rd start psize line sc =
    (let sc1 = sc\<lparr>currentRow := currentRow sc + 1\<rparr>
     in if currentRow sc1 = 0 then (sc1, False)
        else
          (let dataRow = currentRow sc1 - 1;
               sc2 = (if dataRow \<ge> start \<and> foundRows sc1 < psize
                      then (let vs = parseCsvLine line
                            in sc1\<lparr>sc_rows := sc_rows sc1 @ [\<lparr>rowNumber = dataRow + 1, data = csv_rowData (columns rd) vs\<rparr>],
                                   foundRows := foundRows sc1 + 1\<rparr>)
                      else sc1)
           in (sc2, foundRows sc2 \<ge> psize)))"

fun page_lines :: "reader \<Rightarrow> int \<Rightarrow> int \<Rightarrow> string list \<Rightarrow> csv_scan \<Rightarrow> csv_scan" where
  "page_lines rd start psize [] sc = sc"
| "page_lines rd start psize (line # rest) sc =
    (case page_line rd start psize line sc of
       (sc', stop) \<Rightarrow> if stop then sc' else page_lines rd start psize rest sc')"

definition readCsvPage :: "reader \<Rightarrow> string list \<Rightarrow> int \<Rightarrow> int \<Rightarrow> page" where
  "readCsvPage rd lines start psize =
    (let sc = page_lines rd start psize lines \<lparr>sc_rows = [], currentRow = - 1, foundRows = 0\<rparr>
     in \<lparr>pg_rows = sc_rows sc, startRow = start, endRow = start + foundRows sc - 1,
         pg_totalRows = rd_totalRows rd, hasMore = (start + foundRows sc < rd_totalRows rd)\<rparr>)"

definition excel_rowData :: "worksheet \<Rightarrow> column list \<Rightarrow> int \<Rightarrow> (string \<times> string) list" where
  "excel_rowData ws cols actualRow =
    foldl (\<lambda>rowData col.
             assign (col_name col)
               (case map_of (ws_cells ws) (actualRow, col_index col) of
                  Some v \<Rightarrow> js_String v
                | None \<Rightarrow> [])
               rowData) [] cols"

text \<open>
  \<open>readExcelPage\<close> reads the workbook with the in-memory parser only, whichever way the
  session was initialised.
\<close>

definition readExcelPage :: "reader \<Rightarrow> (string + workbook) \<Rightarrow> int \<Rightarrow> int \<Rightarrow> string + page" where
  "readExcelPage rd readFile start psize =
    (let rethrow = (\<lambda>e. ''Failed to read Excel page: '' @ e);
         sheetName = (case currentSheet rd of Some n \<Rightarrow> n | None \<Rightarrow> ''null'')
     in case readFile of
          Inl e \<Rightarrow> Inl (rethrow e)
        | Inr wb \<Rightarrow>
           (case (case currentSheet rd of Some n \<Rightarrow> map_of (Sheets wb) n | None \<Rightarrow> None) of
              None \<Rightarrow> Inl (rethrow (''Worksheet '' @ [CHR 0x27] @ sheetName @ [CHR 0x27] @ '' not found''))
            | Some ws \<Rightarrow>
               (let r = ws_range ws;
                    lastRow = min (start + psize) (rd_totalRows rd);
                    rs = map (\<lambda>row. \<lparr>rowNumber = row + 1,
                                      data = excel_rowData ws (columns rd) (row + s_r r + 1)\<rparr>)
                           [start..lastRow - 1]
                in Inr \<lparr>pg_rows = rs, startRow = start, endRow = lastRow - 1,
                        pg_totalRows = rd_totalRows rd, hasMore = (lastRow < rd_totalRows rd)\<rparr>)))"

text \<open>\<open>readPage\<close>; \<open>!this.currentFile\<close> holds of null and of the empty string.\<close>

definition readPage :: "reader \<Rightarrow> viewer_file \<Rightarrow> int \<Rightarrow> int \<Rightarrow> string + page" where
  "readPage rd f start psize =
    (if currentFile rd = None \<or> currentFile rd = Some [] then Inl ''No file initialized''
     else case fileType rd of
            Some csv \<Rightarrow> Inr (readCsvPage rd (vf_lines f) start psize)
          | Some excel \<Rightarrow> readExcelPage rd (vf_xlsx f) start psize
          | None \<Rightarrow> Inl ''Unsupported file type'')"

subsection \<open>The viewer's handlers\<close>

datatype 'a reply = Replied 'a | Refused string

text \<open>
  \<open>viewer-init-file\<close>: the reply, and the handler's \<open>streamingReader\<close> afterwards. The path is
  validated before the old reader is replaced, so a refused path leaves the old reader in
  place; of the reply the fields of \<open>initializeFile\<close>'s result are kept (\<open>fileInfo\<close> repeats
  the reader's fields).
\<close>

definition viewer_init_file ::
  "viewer_file \<Rightarrow> reader option \<Rightarrow> string \<Rightarrow> init_result reply \<times> reader option" where
  "viewer_init_file f streamingReader filePath =
    (case validateFilePath f filePath of
       Inl e \<Rightarrow> (Refused e, streamingReader)
     | Inr validatedPath \<Rightarrow>
        (case initializeFile new_reader f validatedPath of
           (Inl e, rd) \<Rightarrow> (Refused e, Some rd)
         | (Inr r, rd) \<Rightarrow> (Replied r, Some rd)))"

text \<open>
  \<open>viewer-read-page\<close>: \<open>readPage(startRow, pageSize || 100)\<close>, where an undefined \<open>startRow\<close>
  takes the default 0 of \<open>readPage\<close>.
\<close>

definition viewer_read_page ::
  "viewer_file \<Rightarrow> reader option \<Rightarrow> int option \<Rightarrow> int option \<Rightarrow> page reply" where
  "viewer_read_page f streamingReader start psize =
    (case streamingReader of
       None \<Rightarrow> Refused ''No file initialized for viewing''
     | Some rd \<Rightarrow>
        (case readPage rd f (case start of None \<Rightarrow> 0 | Some s \<Rightarrow> s)
                (case psize of None \<Rightarrow> 100 | Some p \<Rightarrow> if p = 0 then 100 else p) of
           Inl e \<Rightarrow> Refused e
         | Inr pg \<Rightarrow> Replied pg))"


section \<open>Notions used to state the properties\<close>

text \<open>The variables of \<open>readCsvPage\<close> before the first line.\<close>

abbreviation scan0 :: csv_scan where
  "scan0 \<equiv> \<lparr>sc_rows = [], currentRow = - 1, foundRows = 0\<rparr>"

text \<open>The condition under which the loop writes the accumulated rows out before taking \<open>row\<close>.\<close>

definition flushes :: "int option \<Rightarrow> int option \<Rightarrow> cell list \<Rightarrow> split_state \<Rightarrow> bool" where
  "flushes maxRows maxSizeBytes row st =
    (currentRows st \<noteq> [] \<and>
      (wouldExceedRows maxRows st \<or> wouldExceedSize maxSizeBytes st (int (length (csvRow row)) + 1)))"

text \<open>The row counts of the files when \<open>t\<close> rows are cut into files of \<open>r\<close> rows.\<close>

definition chunks :: "nat \<Rightarrow> nat \<Rightarrow> nat list" where
  "chunks r t = replicate (t div r) r @ (if t mod r = 0 then [] else [t mod r])"

text \<open>The row counts recorded so far, with the accumulated rows as one more file.\<close>

definition pending :: "split_state \<Rightarrow> nat list" where
  "pending st = map rows (sp_files st) @ (if currentRows st \<noteq> [] then [length (currentRows st)] else [])"

text \<open>The paths of the files written so far are the chunk paths 1, 2, ...\<close>

definition numbered :: "fpath \<Rightarrow> split_state \<Rightarrow> bool" where
  "numbered out st \<longleftrightarrow>
     fileIndex st = length (sp_files st) + 1
     \<and> map path (sp_files st) = map (getChunkFilePath out) [1..<fileIndex st]"



text \<open>A row all of whose cells are null, undefined or the empty string.\<close>

definition blank_row :: "cell list \<Rightarrow> bool" where
  "blank_row row = list_all (\<lambda>c. c = CNull \<or> c = CUndefined \<or> c = CStr []) row"

text \<open>The rows that remain when the blank rows are dropped.\<close>

definition kept_rows :: "cell list list \<Rightarrow> cell list list" where
  "kept_rows rs = filter (\<lambda>row. \<not> blank_row row) rs"

text \<open>The progress a conversion has posted when it hands the rows to the writer.\<close>

definition before_writing :: "io \<Rightarrow> io" where
  "before_writing w =
    sendProgress 80 ''Writing CSV file...''
      (sendProgress 60 ''Processing rows...''
        (sendProgress 40 ''Converting to CSV format...'' w))"

text \<open>The error entries and the files of a list of worksheets, in the order of the worksheets.\<close>

definition failures ::
  "(string \<Rightarrow> fpath \<Rightarrow> string + conv_result) \<Rightarrow> string \<Rightarrow> string \<Rightarrow> string list \<Rightarrow> string list" where
  "failures convert d b sheets =
    concat (map (\<lambda>s. case convert s (sheet_path d b s) of Inl e \<Rightarrow> [s @ '': '' @ e] | Inr r \<Rightarrow> []) sheets)"

definition created ::
  "(string \<Rightarrow> fpath \<Rightarrow> string + conv_result) \<Rightarrow> string \<Rightarrow> string \<Rightarrow> string list \<Rightarrow> file_record list" where
  "created convert d b sheets =
    concat (map (\<lambda>s. case convert s (sheet_path d b s) of Inl e \<Rightarrow> [] | Inr r \<Rightarrow> files r) sheets)"

text \<open>
  The files on disk beyond \<open>d0\<close> are the recorded files, in order, each holding as many
  lines as recorded; with the accumulated rows they hold the lines \<open>pre\<close>.
\<close>

definition stored :: "(fpath \<times> string) list \<Rightarrow> string list \<Rightarrow> split_state \<Rightarrow> io \<Rightarrow> bool" where
  "stored d0 pre st w \<longleftrightarrow>
     (\<exists>cs. length cs = length (sp_files st)
        \<and> disk w = d0 @ map2 (\<lambda>f c. (path f, join [newline] c)) (sp_files st) cs
        \<and> map length cs = map rows (sp_files st)
        \<and> concat cs @ currentRows st = pre)"

text \<open>
  From \<open>w\<close> to \<open>w'\<close> the percentages posted are in non-decreasing order and lie between
  \<open>lo\<close> and \<open>hi\<close>.
\<close>

definition adds :: "rat \<Rightarrow> rat \<Rightarrow> io \<Rightarrow> io \<Rightarrow> bool" where
  "adds lo hi w w' \<longleftrightarrow>
     lo \<le> hi \<and>
     (\<exists>ps. percents (posted w') = percents (posted w) @ ps \<and> sorted ps
        \<and> list_all (\<lambda>p. lo \<le> p \<and> p \<le> hi) ps)"

text \<open>The percentage posted with a file written at row \<open>i\<close> of \<open>n\<close>.\<close>

definition flush_percent :: "nat \<Rightarrow> nat \<Rightarrow> rat" where
  "flush_percent n i = 85 + (of_nat i / of_nat n) * 10"

section \<open>Concrete workbooks, files and requests\<close>

definition ex_out :: fpath where
  "ex_out = \<lparr>dir = ''out'', stem = ''book_S'', ext = ''.csv''\<rparr>"

definition ex_sheet :: "int \<Rightarrow> cell list list \<Rightarrow> worksheet" where
  "ex_sheet lastIndex json =
    \<lparr>ws_range = \<lparr>s_r = 0, s_c = 0, e_r = lastIndex, e_c = 2\<rparr>, ws_json = json, ws_cells = []\<rparr>"

text \<open>A workbook whose only sheet spans exactly 1000 rows.\<close>

definition ex_book :: workbook where
  "ex_book = \<lparr>SheetNames = [''S''], Sheets = [(''S'', ex_sheet 999 [[CStr ''a'']])]\<rparr>"

definition ex_env :: worker_env where
  "ex_env =
    \<lparr>fileExists = True, isFile = True, extname = ''.xlsx'', sizeLabel = ''0.01'',
     haveXLSX = True, haveExcelJS = True,
     xlsx_readFile = Inr ex_book, exceljs_readFile = Inl ''unreadable''\<rparr>"

definition ex_analysis :: analysis where
  "ex_analysis = \<lparr>an_worksheets = [''S''], an_workbook = XLSX ex_book, worksheetInfo = None\<rparr>"

definition ex_info :: ws_info where
  "ex_info = \<lparr>name = ''S'', accessible = True, estimatedRows = 1000, estimatedCols = 3, complexity = small\<rparr>"

text \<open>A CSV file of a three-column header and 50 data lines.\<close>

definition ex_csv_file :: viewer_file where
  "ex_csv_file =
    \<lparr>vf_resolved = ''/data/rows.csv'', vf_exists = True, vf_isFile = True, vf_extname = ''.csv'',
     vf_size = 306, vf_lines = replicate 51 ''a,b,c'', vf_xlsx = Inl ''Unsupported file'',
     vf_engine_sheets = ReportedError ''File is not a zip file'',
     vf_engine_sheet = (\<lambda>n. ReportedError ''File is not a zip file'')\<rparr>"

text \<open>
  A spreadsheet of a header and four data rows, the reader the viewer initialises on it, and
  its page of five rows from row 2.
\<close>

definition ex_grid :: worksheet where
  "ex_grid =
    \<lparr>ws_range = \<lparr>s_r = 0, s_c = 0, e_r = 4, e_c = 0\<rparr>,
     ws_json = [],
     ws_cells = [((0, 0), CStr ''id''), ((1, 0), CNum 1), ((2, 0), CNum 2),
                 ((3, 0), CNum 3), ((4, 0), CNum 4)]\<rparr>"

definition ex_grid_file :: viewer_file where
  "ex_grid_file =
    \<lparr>vf_resolved = ''/data/book.xlsx'', vf_exists = True, vf_isFile = True, vf_extname = ''.xlsx'',
     vf_size = 8192, vf_lines = [],
     vf_xlsx = Inr \<lparr>SheetNames = [''S''], Sheets = [(''S'', ex_grid)]\<rparr>,
     vf_engine_sheets = SpawnFailed ''spawn python3 ENOENT'',
     vf_engine_sheet = (\<lambda>n. SpawnFailed ''spawn python3 ENOENT'')\<rparr>"

definition ex_reader :: reader where
  "ex_reader =
    \<lparr>currentFile = Some ''/data/book.xlsx'', currentSheet = Some ''S'', fileType = Some excel,
     rd_totalRows = 4,
     columns = [\<lparr>col_index = 0, col_name = ''id'', col_type = ''text''\<rparr>]\<rparr>"

definition ex_page :: page where
  "ex_page =
    \<lparr>pg_rows = [\<lparr>rowNumber = 3, data = [(''id'', ''3'')]\<rparr>, \<lparr>rowNumber = 4, data = [(''id'', ''4'')]\<rparr>],
     startRow = 2, endRow = 3, pg_totalRows = 4, hasMore = False\<rparr>"

text \<open>
  A workbook whose sheet S the in-memory parser lists but does not hold, and which the
  external engine reads: 4 rows under the header \<open>id\<close>. The reader is the one the viewer
  initialises on it.
\<close>

definition ex_engine_file :: viewer_file where
  "ex_engine_file =
    \<lparr>vf_resolved = ''/data/book.xlsx'', vf_exists = True, vf_isFile = True, vf_extname = ''.xlsx'',
     vf_size = 8192, vf_lines = [],
     vf_xlsx = Inr \<lparr>SheetNames = [''S''], Sheets = []\<rparr>,
     vf_engine_sheets = Reported [\<lparr>es_name = ''S'', es_accessible = True\<rparr>],
     vf_engine_sheet =
       (\<lambda>n. if n = ''S''
            then Reported \<lparr>ei_totalRows = 4,
                           ei_columns = [\<lparr>col_index = 0, col_name = ''id'', col_type = ''text''\<rparr>],
                           ei_sheetName = ''S''\<rparr>
            else ReportedError ''Worksheet not found'')\<rparr>"

definition ex_engine_reader :: reader where
  "ex_engine_reader =
    \<lparr>currentFile = Some ''/data/book.xlsx'', currentSheet = Some ''S'', fileType = Some excel,
     rd_totalRows = 4,
     columns = [\<lparr>col_index = 0, col_name = ''id'', col_type = ''text''\<rparr>]\<rparr>"

text \<open>Three rows of one cell each, and what the writer records for them under a limit of two rows.\<close>

definition ex_rows3 :: "cell list list" where
  "ex_rows3 = [[CStr ''a''], [CStr ''b''], [CStr ''c'']]"

definition ex_files3 :: "file_record list" where
  "ex_files3 =
    [\<lparr>path = \<lparr>dir = ''out'', stem = ''book_S_part1'', ext = ''.csv''\<rparr>, rows = 2\<rparr>,
     \<lparr>path = \<lparr>dir = ''out'', stem = ''book_S_part2'', ext = ''.csv''\<rparr>, rows = 1\<rparr>]"









text \<open>
  A workbook that only the streaming parser reads, with one sheet \<open>A\<close> whose only row holds an
  empty string.
\<close>

definition ex_xjs_sheet :: xjs_worksheet where
  "ex_xjs_sheet = \<lparr>xjs_name = ''A'', rowCount = 1, columnCount = 1, rowValues = [[CUndefined, CStr []]]\<rparr>"

definition ex_xjs_book :: xjs_workbook where
  "ex_xjs_book = \<lparr>worksheets = [ex_xjs_sheet]\<rparr>"

definition ex_xjs_env :: worker_env where
  "ex_xjs_env =
    \<lparr>fileExists = True, isFile = True, extname = ''.xlsx'', sizeLabel = ''0.01'',
     haveXLSX = True, haveExcelJS = True,
     xlsx_readFile = Inl ''Unsupported file'', exceljs_readFile = Inr ex_xjs_book\<rparr>"


section \<open>Worksheet complexity\<close>

lemma complexity_of_cases:
  "(complexity_of n = small \<longleftrightarrow> n \<le> 1000)
 \<and> (complexity_of n = medium \<longleftrightarrow> 1000 < n \<and> n \<le> 10000)
 \<and> (complexity_of n = large \<longleftrightarrow> 10000 < n)"
  by (simp add: complexity_of_def)

lemma xlsx_info_graded:
  "complexity (xlsx_info n ws) = complexity_of (estimatedRows (xlsx_info n ws))"
  by (simp add: xlsx_info_def Let_def)

lemma xjs_info_graded:
  "complexity (xjs_info ws) = complexity_of (estimatedRows (xjs_info ws))"
  by (simp add: xjs_info_def Let_def)

lemma xlsx_infos_graded:
  "xlsx_infos wb ns = Some infos \<Longrightarrow> i \<in> set infos \<Longrightarrow>
     complexity i = complexity_of (estimatedRows i)"
proof (induction ns arbitrary: infos)
  case Nil
  then show ?case by simp
next
  case (Cons n ns)
  then show ?case
    by (auto split: option.splits simp: xlsx_info_graded)
qed

text \<open>The row estimate of a descriptor is the height of the sheet's range.\<close>

lemma xlsx_infos_rows:
  "xlsx_infos wb ns = Some infos \<Longrightarrow>
   map estimatedRows infos =
     map (\<lambda>n. let r = ws_range (the (map_of (Sheets wb) n)) in e_r r - s_r r + 1) ns"
  by (induction ns arbitrary: infos) (auto split: option.splits simp: xlsx_info_def Let_def)

lemma analyzeWorksheets_graded:
  assumes "worksheetInfo result = None"
    and "worksheetInfo (fst (analyzeWorksheets result w)) = Some infos"
    and "i \<in> set infos"
  shows "complexity i = complexity_of (estimatedRows i)"
proof (cases "an_workbook result")
  case (XLSX wb)
  with assms show ?thesis
    by (auto simp: analyzeWorksheets_def Let_def split: option.splits dest: xlsx_infos_graded)
next
  case (ExcelJS wb)
  with assms show ?thesis
    by (auto simp: analyzeWorksheets_def Let_def xjs_info_graded)
qed

text \<open>
  C8, as the specification states it, fails on the boundary: the sheet of \<open>ex_book\<close> has an
  estimated row count of exactly 1000, which the specification classifies as medium
  (at least 1,000 and below 10,000), and the analysis classifies it as small.
\<close>

theorem C8_boundary_1000_is_small:
  "worksheetInfo (fst (analyzeWorksheets ex_analysis no_io)) = Some [ex_info]
   \<and> estimatedRows ex_info = 1000 \<and> complexity ex_info = small \<and> complexity ex_info \<noteq> medium"
  by code_simp

text \<open>
  C8, amended: for every worksheet descriptor that the analysis produces, the complexity class
  is small exactly when the estimated row count is at most 1,000, medium exactly when it is
  above 1,000 and at most 10,000, and large exactly when it is above 10,000.
\<close>

theorem C8_complexity_thresholds:
  assumes "worksheetInfo result = None"
    and "worksheetInfo (fst (analyzeWorksheets result w)) = Some infos"
    and "i \<in> set infos"
  shows "(complexity i = small \<longleftrightarrow> estimatedRows i \<le> 1000)
       \<and> (complexity i = medium \<longleftrightarrow> 1000 < estimatedRows i \<and> estimatedRows i \<le> 10000)
       \<and> (complexity i = large \<longleftrightarrow> 10000 < estimatedRows i)"
  using analyzeWorksheets_graded [OF assms] complexity_of_cases [of "estimatedRows i"] by simp

theorem C8_complexity_thresholds_witness:
  "worksheetInfo ex_analysis = None
   \<and> worksheetInfo (fst (analyzeWorksheets ex_analysis no_io)) = Some [ex_info]
   \<and> ex_info \<in> set [ex_info]
   \<and> (complexity ex_info = small \<longleftrightarrow> estimatedRows ex_info \<le> 1000)
   \<and> (complexity ex_info = medium \<longleftrightarrow> 1000 < estimatedRows ex_info \<and> estimatedRows ex_info \<le> 10000)
   \<and> (complexity ex_info = large \<longleftrightarrow> 10000 < estimatedRows ex_info)"
proof -
  have h1: "worksheetInfo ex_analysis = None"
    by (simp add: ex_analysis_def)
  have h2: "worksheetInfo (fst (analyzeWorksheets ex_analysis no_io)) = Some [ex_info]"
    by code_simp
  have h3: "ex_info \<in> set [ex_info]"
    by simp
  from C8_complexity_thresholds [OF h1 h2 h3] h1 h2 show ?thesis
    by simp
qed

section \<open>Pages of the streaming reader\<close>

lemma page_line_found:
  "foundRows sc = int (length (sc_rows sc)) \<Longrightarrow>
   foundRows (fst (page_line rd start psize line sc)) = int (length (sc_rows (fst (page_line rd start psize line sc))))"
  by (simp add: page_line_def Let_def)

lemma page_lines_found:
  "foundRows sc = int (length (sc_rows sc)) \<Longrightarrow>
   foundRows (page_lines rd start psize ls sc) = int (length (sc_rows (page_lines rd start psize ls sc)))"
proof (induction ls arbitrary: sc)
  case Nil
  then show ?case by simp
next
  case (Cons l ls)
  obtain sc' stop where step: "page_line rd start psize l sc = (sc', stop)"
    by (cases "page_line rd start psize l sc")
  with page_line_found [OF Cons.prems, of rd start psize l]
  have inv: "foundRows sc' = int (length (sc_rows sc'))" by simp
  show ?case
    using step inv Cons.IH [OF inv] by simp
qed

lemma page_line_bound:
  "foundRows sc \<le> psize \<Longrightarrow> foundRows (fst (page_line rd start psize line sc)) \<le> psize"
  by (simp add: page_line_def Let_def)

lemma page_lines_bound:
  "foundRows sc \<le> psize \<Longrightarrow> foundRows (page_lines rd start psize ls sc) \<le> psize"
proof (induction ls arbitrary: sc)
  case Nil
  then show ?case by simp
next
  case (Cons l ls)
  obtain sc' stop where step: "page_line rd start psize l sc = (sc', stop)"
    by (cases "page_line rd start psize l sc")
  with page_line_bound [OF Cons.prems, of rd start l]
  have inv: "foundRows sc' \<le> psize" by simp
  show ?case
    using step inv Cons.IH [OF inv] by simp
qed

lemma page_line_after_close:
  "psize \<le> foundRows sc \<Longrightarrow>
   sc_rows (fst (page_line rd start psize line sc)) = sc_rows sc
   \<and> foundRows (fst (page_line rd start psize line sc)) = foundRows sc"
  by (simp add: page_line_def Let_def)

lemma page_line_row:
  "currentRow (fst (page_line rd start psize line sc)) = currentRow sc + 1"
  by (simp add: page_line_def Let_def)

lemma page_lines_beyond:
  "currentRow sc + int (length ls) - 1 < start \<Longrightarrow>
   sc_rows (page_lines rd start psize ls sc) = sc_rows sc"
proof (induction ls arbitrary: sc)
  case Nil
  then show ?case by simp
next
  case (Cons l ls)
  obtain sc' stop where step: "page_line rd start psize l sc = (sc', stop)"
    by (cases "page_line rd start psize l sc")
  have same: "sc_rows sc' = sc_rows sc" and row: "currentRow sc' = currentRow sc + 1"
    using step Cons.prems by (auto simp: page_line_def Let_def split: if_splits)
  have "currentRow sc' + int (length ls) - 1 < start"
    using Cons.prems row by simp
  from Cons.IH [OF this] show ?case
    using step same by simp
qed

lemma count_step_continue:
  fixes p f k n start :: int
  assumes "0 \<le> p" "f \<le> p" "- 1 \<le> k" "0 \<le> n"
    and f': "f' = (if k + 1 \<noteq> 0 \<and> k \<ge> start \<and> f < p then f + 1 else f)"
    and go: "\<not> (k + 1 \<noteq> 0 \<and> f' \<ge> p)"
  shows "min p (f' + max 0 (k + 1 + n - max (k + 1) (max 0 start)))
       = min p (f + max 0 (k + (n + 1) - max k (max 0 start)))"
proof (cases "k = - 1")
  case True
  then show ?thesis using f' by simp
next
  case False
  then have k1: "k + 1 \<noteq> 0" by simp
  with False assms have k: "0 \<le> k" and lt: "f' < p" by auto
  show ?thesis
  proof (cases "k \<ge> start")
    case True
    with lt f' k1 have "f' = f + 1" by (auto split: if_splits)
    moreover have "max (k + 1) (max 0 start) = k + 1" "max k (max 0 start) = k"
      using True k by auto
    ultimately show ?thesis using assms(4) by simp
  next
    case False
    then have "f' = f" using f' by simp
    moreover have "max (k + 1) (max 0 start) = start" "max k (max 0 start) = start"
      using False k by auto
    ultimately show ?thesis by (simp add: algebra_simps)
  qed
qed

lemma count_step_stop:
  fixes p f k n start :: int
  assumes "0 \<le> p" "f \<le> p" "- 1 \<le> k" "0 \<le> n"
    and f': "f' = (if k + 1 \<noteq> 0 \<and> k \<ge> start \<and> f < p then f + 1 else f)"
    and stop: "k + 1 \<noteq> 0 \<and> f' \<ge> p"
  shows "f' = min p (f + max 0 (k + (n + 1) - max k (max 0 start)))"
proof -
  from assms have k: "0 \<le> k" by auto
  show ?thesis
  proof (cases "k \<ge> start \<and> f < p")
    case True
    then have "f' = f + 1" using f' stop by simp
    moreover have "max k (max 0 start) = k" using True k by auto
    ultimately show ?thesis using assms(1,2,4) stop True by simp
  next
    case False
    then have "f' = f" using f' by auto
    then show ?thesis using assms(1,2) stop by simp
  qed
qed

lemma page_lines_count:
  "0 \<le> psize \<Longrightarrow> foundRows sc \<le> psize \<Longrightarrow> - 1 \<le> currentRow sc \<Longrightarrow>
   foundRows (page_lines rd start psize ls sc) =
     min psize (foundRows sc + max 0 (currentRow sc + int (length ls) - max (currentRow sc) (max 0 start)))"
proof (induction ls arbitrary: sc)
  case Nil
  then show ?case by simp
next
  case (Cons l ls)
  obtain sc' stop where step: "page_line rd start psize l sc = (sc', stop)"
    by (cases "page_line rd start psize l sc")
  have row: "currentRow sc' = currentRow sc + 1"
    using step page_line_row [of rd start psize l sc] by simp
  have bound: "foundRows sc' \<le> psize"
    using step page_line_bound [OF Cons.prems(2), of rd start l] by simp
  have low: "- 1 \<le> currentRow sc'"
    using row Cons.prems(3) by simp
  note IH = Cons.IH [OF Cons.prems(1) bound low]
  have found: "foundRows sc' =
      (if currentRow sc + 1 \<noteq> 0 \<and> currentRow sc \<ge> start \<and> foundRows sc < psize
       then foundRows sc + 1 else foundRows sc)"
    using step by (auto simp: page_line_def Let_def split: if_splits)
  have stop: "stop \<longleftrightarrow> currentRow sc + 1 \<noteq> 0 \<and> foundRows sc' \<ge> psize"
    using step by (auto simp: page_line_def Let_def split: if_splits)
  have len: "int (length (l # ls)) = int (length ls) + 1" "0 \<le> int (length ls)"
    by simp_all
  show ?case
  proof (cases stop)
    case True
    then have "foundRows (page_lines rd start psize (l # ls) sc) = foundRows sc'"
      using step by simp
    also have "\<dots> = min psize (foundRows sc + max 0 (currentRow sc + (int (length ls) + 1) - max (currentRow sc) (max 0 start)))"
      using count_step_stop [OF Cons.prems len(2) found] True stop by blast
    finally show ?thesis unfolding len(1) .
  next
    case False
    then have "foundRows (page_lines rd start psize (l # ls) sc) = foundRows (page_lines rd start psize ls sc')"
      using step by simp
    also have "\<dots> = min psize (foundRows sc' + max 0 (currentRow sc + 1 + int (length ls) - max (currentRow sc + 1) (max 0 start)))"
      using IH row by simp
    also have "\<dots> = min psize (foundRows sc + max 0 (currentRow sc + (int (length ls) + 1) - max (currentRow sc) (max 0 start)))"
      using count_step_continue [OF Cons.prems len(2) found] False stop by blast
    finally show ?thesis unfolding len(1) .
  qed
qed


lemma analyze_rowCount:
  "rowCount (foldl analyze_line a ls) = rowCount a + int (length ls)"
  by (induction ls arbitrary: a) (auto simp: analyze_line_def Let_def)

lemma analyzeCsvFile_totalRows:
  "rd_totalRows (analyzeCsvFile rd ls) = max 0 (int (length ls) - 1)"
  by (simp add: analyzeCsvFile_def Let_def analyze_rowCount)

lemma readCsvPage_length:
  "int (length (pg_rows (readCsvPage rd ls start psize))) = foundRows (page_lines rd start psize ls scan0)"
  using page_lines_found [of scan0 rd start psize ls]
  by (simp add: readCsvPage_def Let_def)

lemma readCsvPage_hasMore:
  "hasMore (readCsvPage rd ls start psize)
     = (start + int (length (pg_rows (readCsvPage rd ls start psize))) < rd_totalRows rd)"
  unfolding readCsvPage_length by (simp add: readCsvPage_def Let_def)

text \<open>
  The number of rows of a CSV page depends on the number of lines only: no line is left out
  for what it holds.
\<close>

lemma readCsvPage_count:
  "0 \<le> psize \<Longrightarrow>
   int (length (pg_rows (readCsvPage rd ls start psize)))
     = min psize (max 0 (int (length ls) - 1 - max 0 start))"
proof -
  assume p: "0 \<le> psize"
  have "max (- 1) (max 0 start) = max 0 start" by simp
  then show ?thesis
    unfolding readCsvPage_length
    using page_lines_count [of psize scan0 rd start ls] p
    by (simp add: algebra_simps)
qed

lemma readCsvPage_at_most:
  "0 \<le> psize \<Longrightarrow> int (length (pg_rows (readCsvPage rd ls start psize))) \<le> psize"
  unfolding readCsvPage_length
  using page_lines_bound [of scan0 psize rd start ls] by simp

lemma readCsvPage_beyond:
  "int (length ls) - 1 \<le> start \<Longrightarrow> pg_rows (readCsvPage rd ls start psize) = []"
  using page_lines_beyond [of scan0 ls start rd psize]
  by (simp add: readCsvPage_def Let_def)

text \<open>An unbalanced quote does not stop \<open>parseCsvLine\<close>: the line \<open>x,"y\<close> has the fields x and y.\<close>

lemma parseCsvLine_unbalanced_quote:
  "parseCsvLine [CHR ''x'', comma, dquote, CHR ''y''] = [''x'', ''y'']"
  by code_simp

lemma readExcelPage_rows:
  "readExcelPage rd rf start psize = Inr pg \<Longrightarrow>
   int (length (pg_rows pg)) = max 0 (min (start + psize) (rd_totalRows rd) - start)
   \<and> hasMore pg = (min (start + psize) (rd_totalRows rd) < rd_totalRows rd)"
  by (auto simp: readExcelPage_def Let_def split: sum.splits option.splits)

lemma readExcelPage_hasMore:
  assumes "0 \<le> psize" and "readExcelPage rd rf start psize = Inr pg"
  shows "hasMore pg = (start + int (length (pg_rows pg)) < rd_totalRows rd)"
  using readExcelPage_rows [OF assms(2)] assms(1) by auto

lemma readPage_cases:
  "readPage rd f start psize = Inr pg \<Longrightarrow>
   (fileType rd = Some csv \<and> pg = readCsvPage rd (vf_lines f) start psize)
   \<or> (fileType rd = Some excel \<and> readExcelPage rd (vf_xlsx f) start psize = Inr pg)"
  by (auto simp: readPage_def split: if_splits option.splits file_type.splits)

text \<open>
  Whatever the reader's state, a page that is returned for a page size that is not negative
  has \<open>hasMore\<close> equal to (startRow + number of rows) < totalRows, and at most \<open>pageSize\<close> rows.
\<close>

lemma readPage_hasMore:
  assumes "0 \<le> psize" and "readPage rd f start psize = Inr pg"
  shows "hasMore pg = (start + int (length (pg_rows pg)) < rd_totalRows rd)"
  using readPage_cases [OF assms(2)] readCsvPage_hasMore readExcelPage_hasMore [OF assms(1)]
  by blast

lemma readPage_at_most:
  assumes "0 \<le> psize" and "readPage rd f start psize = Inr pg"
  shows "int (length (pg_rows pg)) \<le> psize"
proof -
  from readPage_cases [OF assms(2)] show ?thesis
  proof
    assume "fileType rd = Some csv \<and> pg = readCsvPage rd (vf_lines f) start psize"
    then show ?thesis using readCsvPage_at_most [OF assms(1)] by simp
  next
    assume "fileType rd = Some excel \<and> readExcelPage rd (vf_xlsx f) start psize = Inr pg"
    then show ?thesis using readExcelPage_rows [of rd "vf_xlsx f" start psize pg] assms(1) by auto
  qed
qed

text \<open>
  On a spreadsheet session whose sheet the in-memory parser reads, a page at or beyond the
  total row count is empty.
\<close>

lemma excel_beyond_total:
  assumes "currentFile rd = Some p \<and> p \<noteq> []" and "fileType rd = Some excel"
    and "vf_xlsx f = Inr wb" and "currentSheet rd = Some n" and "map_of (Sheets wb) n = Some ws"
    and "0 \<le> psize" and "rd_totalRows rd \<le> start"
  shows "\<exists>pg. readPage rd f start psize = Inr pg \<and> pg_rows pg = [] \<and> \<not> hasMore pg"
proof -
  have m: "min (start + psize) (rd_totalRows rd) = rd_totalRows rd"
    using assms(6,7) by simp
  have e: "[start..rd_totalRows rd - 1] = []"
    using assms(7) by simp
  show ?thesis
    using assms(1-5) m e by (simp add: readPage_def readExcelPage_def Let_def)
qed

subsection \<open>Sessions\<close>

lemma validateFilePath_extension:
  "validateFilePath f p = Inr q \<Longrightarrow> vf_extname f \<in> set [''.xlsx'', ''.xls'', ''.xlsm'']"
  by (simp add: validateFilePath_def split: if_splits)

text \<open>A file whose extension is not one of the three spreadsheet extensions is refused.\<close>

lemma validateFilePath_refuses:
  "vf_extname f \<notin> set [''.xlsx'', ''.xls'', ''.xlsm''] \<Longrightarrow> \<exists>e. validateFilePath f p = Inl e"
  by (simp add: validateFilePath_def)

lemma setExcelSheetPython_kind:
  "setExcelSheetPython rd f n = Inr rd' \<Longrightarrow> fileType rd' = fileType rd \<and> currentFile rd' = currentFile rd"
  by (auto simp: setExcelSheetPython_def split: sum.splits)

lemma setExcelSheet_kind:
  "setExcelSheet rd f n = Inr rd' \<Longrightarrow> fileType rd' = fileType rd \<and> currentFile rd' = currentFile rd"
  by (auto simp: setExcelSheet_def Let_def dest: setExcelSheetPython_kind
           split: if_splits sum.splits option.splits)

lemma analyzeExcelFile_kind:
  "analyzeExcelFile rd f = Inr rd' \<Longrightarrow> fileType rd' = fileType rd \<and> currentFile rd' = currentFile rd"
  by (auto simp: analyzeExcelFile_def Let_def dest: setExcelSheet_kind
           split: if_splits sum.splits list.splits)

lemma analyzeExcelFilePython_kind:
  "analyzeExcelFilePython rd f = Inr rd' \<Longrightarrow> fileType rd' = fileType rd \<and> currentFile rd' = currentFile rd"
  by (auto simp: analyzeExcelFilePython_def Let_def dest: setExcelSheetPython_kind
           split: if_splits sum.splits list.splits)

text \<open>
  The CSV branch of \<open>initializeFile\<close> is never taken: the validation that precedes it lets
  the three spreadsheet extensions through and nothing else. So no call leaves a reader of
  file type \<open>csv\<close>, and neither does the handler.
\<close>

lemma initializeFile_never_csv:
  assumes "fileType rd \<noteq> Some csv"
  shows "fileType (snd (initializeFile rd f p)) \<noteq> Some csv"
proof (cases "validateFilePath f p")
  case (Inl e)
  then show ?thesis using assms by (simp add: initializeFile_def)
next
  case (Inr q)
  from validateFilePath_extension [OF Inr]
  have ext: "vf_extname f \<noteq> ''.csv''" "vf_extname f \<in> set [''.xlsx'', ''.xls'', ''.xlsm'']"
    by auto
  let ?rd2 = "rd\<lparr>currentFile := Some q, fileType := Some excel\<rparr>"
  let ?a = "if large_file f then analyzeExcelFilePython ?rd2 f else analyzeExcelFile ?rd2 f"
  show ?thesis
  proof (cases ?a)
    case (Inl e)
    then show ?thesis using Inr ext by (simp add: initializeFile_def Let_def)
  next
    case a: (Inr rd3)
    then have "fileType rd3 = Some excel"
      using analyzeExcelFile_kind [of ?rd2 f rd3] analyzeExcelFilePython_kind [of ?rd2 f rd3]
      by (simp split: if_splits)
    then show ?thesis using Inr ext a by (simp add: initializeFile_def Let_def)
  qed
qed

lemma viewer_init_file_never_csv:
  assumes "viewer_init_file f sr p = (r, Some rd)" and "\<forall>old. sr = Some old \<longrightarrow> fileType old \<noteq> Some csv"
  shows "fileType rd \<noteq> Some csv"
proof (cases "validateFilePath f p")
  case (Inl e)
  then show ?thesis using assms by (simp add: viewer_init_file_def)
next
  case (Inr q)
  have "fileType (snd (initializeFile new_reader f q)) \<noteq> Some csv"
    by (rule initializeFile_never_csv) (simp add: new_reader_def)
  moreover have "rd = snd (initializeFile new_reader f q)"
    using assms(1) Inr by (auto simp: viewer_init_file_def split: prod.splits sum.splits)
  ultimately show ?thesis by simp
qed

text \<open>
  Behind the validation the CSV code pages as expected: for a file of a header and 50 data
  lines the reader \<open>analyzeCsvFile\<close> leaves has 50 rows, and \<open>readCsvPage\<close> returns 20 rows
  with \<open>hasMore\<close> true from row 0 and 10 rows with \<open>hasMore\<close> false from row 40.
\<close>

lemma csv_pages_behind_the_validation:
  assumes "length ls = 51"
  shows "length (pg_rows (readCsvPage (analyzeCsvFile rd ls) ls 0 20)) = 20
       \<and> hasMore (readCsvPage (analyzeCsvFile rd ls) ls 0 20)
       \<and> length (pg_rows (readCsvPage (analyzeCsvFile rd ls) ls 40 20)) = 10
       \<and> \<not> hasMore (readCsvPage (analyzeCsvFile rd ls) ls 40 20)"
proof -
  let ?rd = "analyzeCsvFile rd ls"
  have n1: "int (length (pg_rows (readCsvPage ?rd ls 0 20))) = 20"
    using readCsvPage_count [of 20 ?rd ls 0] assms by simp
  have n2: "int (length (pg_rows (readCsvPage ?rd ls 40 20))) = 10"
    using readCsvPage_count [of 20 ?rd ls 40] assms by simp
  have m1: "hasMore (readCsvPage ?rd ls 0 20)"
    unfolding readCsvPage_hasMore n1 using assms by (simp add: analyzeCsvFile_totalRows)
  have m2: "\<not> hasMore (readCsvPage ?rd ls 40 20)"
    unfolding readCsvPage_hasMore n2 using assms by (simp add: analyzeCsvFile_totalRows)
  from n1 n2 m1 m2 show ?thesis by simp
qed

text \<open>
  A session whose sheet the in-memory parser does not hold, or whose file it cannot read,
  has no readable page: \<open>readExcelPage\<close> has no way but the in-memory parser.
\<close>

lemma readPage_needs_the_parser:
  assumes "fileType rd = Some excel"
    and "vf_xlsx f = Inl e \<or> (\<exists>wb n. vf_xlsx f = Inr wb \<and> currentSheet rd = Some n \<and> map_of (Sheets wb) n = None)"
  shows "\<exists>err. readPage rd f start psize = Inl err"
  using assms by (auto simp: readPage_def readExcelPage_def Let_def)

text \<open>The reader and a page of the spreadsheet \<open>ex_grid_file\<close>.\<close>

lemma grid_session:
  "snd (viewer_init_file ex_grid_file None ''book.xlsx'') = Some ex_reader
   \<and> viewer_read_page ex_grid_file (Some ex_reader) (Some 2) (Some 5) = Replied ex_page
   \<and> viewer_read_page ex_grid_file (Some ex_reader) (Some 4) (Some 5) =
       Replied \<lparr>pg_rows = [], startRow = 4, endRow = 3, pg_totalRows = 4, hasMore = False\<rparr>"
  by code_simp

text \<open>
  C3: on a CSV file of 50 data rows \<open>readPage(0, 20)\<close> returns 20 rows with \<open>hasMore\<close> true and
  \<open>readPage(40, 20)\<close> returns 10 rows with \<open>hasMore\<close> false. The viewer does not get that far:
  for the CSV file \<open>ex_csv_file\<close>, a header and 50 data lines, \<open>initializeFile\<close> and the
  handler \<open>viewer-init-file\<close> throw at the validation of the path, no reader is kept, and
  both page reads are refused.
\<close>

theorem C3_csv_file_is_refused:
  "length (vf_lines ex_csv_file) = 51
   \<and> fst (initializeFile new_reader ex_csv_file ''rows.csv'') =
       Inl ''Invalid file type. Only Excel files (.xlsx, .xls, .xlsm) are allowed''
   \<and> viewer_init_file ex_csv_file None ''rows.csv'' =
       (Refused ''Invalid file type. Only Excel files (.xlsx, .xls, .xlsm) are allowed'', None)
   \<and> viewer_read_page ex_csv_file None (Some 0) (Some 20) = Refused ''No file initialized for viewing''
   \<and> viewer_read_page ex_csv_file None (Some 40) (Some 20) = Refused ''No file initialized for viewing''"
  by code_simp

text \<open>
  C10: a page read at or beyond the total row count succeeds with no rows. The workbook
  \<open>ex_engine_file\<close> lists a sheet S that the in-memory parser does not hold and the external
  engine reads; \<open>viewer-init-file\<close> initialises a session of 4 rows on it through the engine,
  and every page read of the session fails, the one from row 4 included.
\<close>

theorem C10_engine_session_page_fails:
  "viewer_init_file ex_engine_file None ''book.xlsx'' =
     (Replied \<lparr>ir_fileType = Some excel, ir_totalRows = 4,
               ir_columns = [\<lparr>col_index = 0, col_name = ''id'', col_type = ''text''\<rparr>],
               ir_sheets = Some [\<lparr>se_name = ''S'', se_accessible = None\<rparr>]\<rparr>,
      Some ex_engine_reader)
   \<and> rd_totalRows ex_engine_reader = 4
   \<and> viewer_read_page ex_engine_file (Some ex_engine_reader) (Some 4) (Some 20) =
       Refused (''Failed to read Excel page: Worksheet '' @ [CHR 0x27] @ ''S'' @ [CHR 0x27] @ '' not found'')
   \<and> viewer_read_page ex_engine_file (Some ex_engine_reader) (Some 0) (Some 20) =
       Refused (''Failed to read Excel page: Worksheet '' @ [CHR 0x27] @ ''S'' @ [CHR 0x27] @ '' not found'')"
  by code_simp

section \<open>The row-limited writer\<close>

lemma split_step_state:
  "fst (split_step out mr ms n i row (st, w)) =
    (if flushes mr ms row st
     then \<lparr>sp_files = sp_files st @ [\<lparr>path = getChunkFilePath out (fileIndex st), rows = length (currentRows st)\<rparr>],
           fileIndex = fileIndex st + 1, currentRows = [csvRow row],
           currentSize = int (length (csvRow row)) + 1\<rparr>
     else st\<lparr>currentRows := currentRows st @ [csvRow row],
              currentSize := currentSize st + (int (length (csvRow row)) + 1)\<rparr>)"
  by (simp add: split_step_def flushes_def Let_def)

lemma chunks_add: "0 < r \<Longrightarrow> chunks r (r + t) = r # chunks r t"
  by (simp add: chunks_def)

lemma chunks_small: "0 < r \<Longrightarrow> c \<le> r \<Longrightarrow> chunks r c = (if c = 0 then [] else [c])"
proof -
  assume r: "0 < r" and c: "c \<le> r"
  show ?thesis
  proof (cases "c = r")
    case True
    then show ?thesis using r by (simp add: chunks_def)
  next
    case False
    with c have "c < r" by simp
    then show ?thesis by (simp add: chunks_def)
  qed
qed

lemma flushes_rows_only:
  "0 < r \<Longrightarrow> length (currentRows st) \<le> r \<Longrightarrow>
   flushes (Some (int r)) None row st \<longleftrightarrow> length (currentRows st) = r"
  by (auto simp: flushes_def wouldExceedRows_def wouldExceedSize_def)

lemma split_loop_counts:
  assumes "0 < r"
  shows "length (currentRows (fst sw)) \<le> r \<Longrightarrow>
    pending (fst (split_loop out (Some (int r)) None n i rs sw)) =
      map rows (sp_files (fst sw)) @ chunks r (length (currentRows (fst sw)) + length rs)"
proof (induction rs arbitrary: sw i)
  case Nil
  then show ?case
    using chunks_small [OF assms, of "length (currentRows (fst sw))"]
    by (simp add: pending_def)
next
  case (Cons row rest)
  obtain st w where sw: "sw = (st, w)" by (cases sw)
  let ?sw' = "split_step out (Some (int r)) None n i row sw"
  have le: "length (currentRows st) \<le> r" using Cons.prems sw by simp
  note fl = flushes_rows_only [OF assms le, of row]
  show ?case
  proof (cases "length (currentRows st) = r")
    case True
    then have st': "sp_files (fst ?sw') = sp_files st @ [\<lparr>path = getChunkFilePath out (fileIndex st), rows = r\<rparr>]"
        "currentRows (fst ?sw') = [csvRow row]"
      using fl sw by (simp_all add: split_step_state)
    have "length (currentRows (fst ?sw')) \<le> r" using st' assms by simp
    from Cons.IH [OF this, of "Suc i"] show ?thesis
      using st' sw True chunks_add [OF assms, of "Suc (length rest)"] by simp
  next
    case False
    then have st': "sp_files (fst ?sw') = sp_files st"
        "currentRows (fst ?sw') = currentRows st @ [csvRow row]"
      using fl sw by (simp_all add: split_step_state)
    have "length (currentRows (fst ?sw')) \<le> r" using st' le False by simp
    from Cons.IH [OF this, of "Suc i"] show ?thesis
      using st' sw by simp
  qed
qed

lemma writeCSVWithSplitting_files:
  "files (fst (writeCSVWithSplitting rs out mr mfs w)) =
    (let st = fst (split_loop out mr (if truthy mfs then Some (the mfs * 1024 * 1024) else None) (length rs) 0 rs
                (\<lparr>sp_files = [], fileIndex = 1, currentRows = [], currentSize = 0\<rparr>,
                 sendProgress 85 ''Preparing file splitting...'' w))
     in if currentRows st \<noteq> []
        then sp_files st @ [\<lparr>path = (if fileIndex st = 1 then out else getChunkFilePath out (fileIndex st)),
                               rows = length (currentRows st)\<rparr>]
        else sp_files st)"
  by (simp add: writeCSVWithSplitting_def Let_def split: prod.splits)

lemma writeCSVWithSplitting_totalRows:
  "totalRows (fst (writeCSVWithSplitting rs out mr mfs w)) = length rs"
  by (simp add: writeCSVWithSplitting_def Let_def split: prod.splits)

lemma no_size_limit: "\<not> truthy mfs \<Longrightarrow> (if truthy mfs then Some (the mfs * 1024 * 1024) else None) = None"
  by simp

lemma writer_counts:
  assumes "0 < r" and "\<not> truthy mfs"
  shows "map rows (files (fst (writeCSVWithSplitting rs out (Some (int r)) mfs w))) = chunks r (length rs)"
proof -
  let ?sw = "(\<lparr>sp_files = [], fileIndex = 1, currentRows = [], currentSize = 0\<rparr>,
               sendProgress 85 ''Preparing file splitting...'' w)"
  let ?st = "fst (split_loop out (Some (int r)) None (length rs) 0 rs ?sw)"
  have "map rows (files (fst (writeCSVWithSplitting rs out (Some (int r)) mfs w))) = pending ?st"
    unfolding writeCSVWithSplitting_files no_size_limit [OF assms(2)]
    by (simp add: pending_def Let_def)
  also have "\<dots> = chunks r (length rs)"
    using split_loop_counts [OF assms(1), of ?sw out "length rs" 0 rs] by simp
  finally show ?thesis .
qed

lemma chunks_length: "0 < r \<Longrightarrow> length (chunks r t) = (t + r - 1) div r"
proof -
  assume r: "0 < r"
  have "t + r - 1 = (t mod r + r - 1) + r * (t div r)"
    using r by simp
  then have split: "(t + r - 1) div r = t div r + (t mod r + r - 1) div r"
    using r by (metis div_mult_self2 less_numeral_extra(3))
  show ?thesis
  proof (cases "t mod r = 0")
    case True
    then show ?thesis using r split by (simp add: chunks_def)
  next
    case False
    have "(t mod r + r - 1) div r = 1"
    proof (rule div_nat_eqI)
      show "r * 1 \<le> t mod r + r - 1" using False by simp
      show "t mod r + r - 1 < r * Suc 1" using r mod_less_divisor [OF r, of t] by simp
    qed
    then show ?thesis using False split by (simp add: chunks_def)
  qed
qed

lemma chunks_sum: "sum_list (chunks r t) = t"
proof -
  have "t div r * r + t mod r = t"
    by (rule div_mult_mod_eq)
  then show ?thesis
    by (cases "t mod r = 0") (simp_all add: chunks_def sum_list_replicate)
qed

lemma chunks_bound: "0 < r \<Longrightarrow> c \<in> set (chunks r t) \<Longrightarrow> c \<le> r"
  by (auto simp: chunks_def split: if_splits)

lemma chunks_full: "k + 1 < length (chunks r t) \<Longrightarrow> chunks r t ! k = r"
  by (auto simp: chunks_def nth_append split: if_splits)


lemma ceiling_as_div:
  assumes "0 < r"
  shows "\<lceil>(of_nat t :: rat) / of_nat r\<rceil> = int ((t + r - 1) div r)"
proof (rule ceiling_unique)
  let ?k = "(t + r - 1) div r"
  have eq: "?k * r + (t + r - 1) mod r = t + r - 1"
    by (rule div_mult_mod_eq)
  have m: "(t + r - 1) mod r < r"
    using assms by simp
  have up: "t \<le> ?k * r"
    using eq m by linarith
  have lo: "?k * r < t + r"
    using eq assms by linarith
  have rpos: "(0::rat) < of_nat r"
    using assms by simp
  have "(of_nat (?k * r) :: rat) < of_nat (t + r)"
    using lo by (simp only: of_nat_less_iff)
  then have "(of_nat ?k - 1) * (of_nat r :: rat) < of_nat t"
    by (simp add: algebra_simps)
  then show "of_int (int ?k) - 1 < (of_nat t :: rat) / of_nat r"
    using rpos by (simp add: pos_less_divide_eq)
  have "(of_nat t :: rat) \<le> of_nat (?k * r)"
    using up by (simp only: of_nat_le_iff)
  then have "(of_nat t :: rat) \<le> of_nat ?k * of_nat r"
    by simp
  then show "(of_nat t :: rat) / of_nat r \<le> of_int (int ?k)"
    using rpos by (simp add: pos_divide_le_eq)
qed


lemma split_step_numbered:
  "numbered out st \<Longrightarrow> numbered out (fst (split_step out mr ms n i row (st, w)))"
  by (simp add: split_step_state numbered_def)

lemma split_step_nonempty:
  "currentRows (fst (split_step out mr ms n i row (st, w))) \<noteq> []"
  by (simp add: split_step_state)

lemma split_loop_numbered:
  "numbered out (fst sw) \<Longrightarrow> numbered out (fst (split_loop out mr ms n i rs sw))"
proof (induction rs arbitrary: sw i)
  case Nil
  then show ?case by simp
next
  case (Cons row rest)
  obtain st w where sw: "sw = (st, w)" by (cases sw)
  with Cons.prems have "numbered out (fst (split_step out mr ms n i row sw))"
    by (simp add: split_step_numbered)
  from Cons.IH [OF this] show ?case by simp
qed

lemma split_loop_nonempty:
  "rs \<noteq> [] \<or> currentRows (fst sw) \<noteq> [] \<Longrightarrow> currentRows (fst (split_loop out mr ms n i rs sw)) \<noteq> []"
proof (induction rs arbitrary: sw i)
  case Nil
  then show ?case by simp
next
  case (Cons row rest)
  obtain st w where sw: "sw = (st, w)" by (cases sw)
  have "currentRows (fst (split_step out mr ms n i row sw)) \<noteq> []"
    unfolding sw by (rule split_step_nonempty)
  then have "rest \<noteq> [] \<or> currentRows (fst (split_step out mr ms n i row sw)) \<noteq> []"
    by simp
  from Cons.IH [OF this] show ?case by simp
qed

lemma writer_paths:
  "map path (files (fst (writeCSVWithSplitting rs out mr mfs w))) =
    (let k = length (files (fst (writeCSVWithSplitting rs out mr mfs w)))
     in if k = 1 then [out] else map (getChunkFilePath out) [1..<k + 1])"
proof -
  let ?ms = "if truthy mfs then Some (the mfs * 1024 * 1024) else None"
  let ?sw = "(\<lparr>sp_files = [], fileIndex = 1, currentRows = [], currentSize = 0\<rparr>,
               sendProgress 85 ''Preparing file splitting...'' w)"
  let ?st = "fst (split_loop out mr ?ms (length rs) 0 rs ?sw)"
  have "numbered out (fst ?sw)"
    by (simp add: numbered_def)
  then have num: "numbered out ?st"
    by (rule split_loop_numbered)
  show ?thesis
  proof (cases "currentRows ?st = []")
    case True
    have "rs = []"
    proof (rule ccontr)
      assume "rs \<noteq> []"
      then have "rs \<noteq> [] \<or> currentRows (fst ?sw) \<noteq> []" by simp
      from split_loop_nonempty [OF this] True show False by blast
    qed
    then show ?thesis
      by (simp add: writeCSVWithSplitting_files Let_def)
  next
    case False
    then show ?thesis
      using num unfolding writeCSVWithSplitting_files
      by (auto simp: Let_def numbered_def)
  qed
qed

subsection \<open>What the writer puts on disk\<close>

lemma split_step_io:
  "snd (split_step out mr ms n i row (st, w)) =
    (if flushes mr ms row st
     then sendProgress (85 + (of_nat i / of_nat n) * 10)
            (''Created file '' @ show_nat (fileIndex st) @ '' with ''
               @ show_nat (length (currentRows st)) @ '' rows'')
            (writeFileSync (getChunkFilePath out (fileIndex st)) (join [newline] (currentRows st)) w)
     else w)"
  by (simp add: split_step_def flushes_def Let_def)

lemma split_step_stored:
  assumes "stored d0 pre st w"
  shows "stored d0 (pre @ [csvRow row]) (fst (split_step out mr ms n i row (st, w)))
           (snd (split_step out mr ms n i row (st, w)))"
proof -
  from assms obtain cs where cs: "length cs = length (sp_files st)"
      "disk w = d0 @ map2 (\<lambda>f c. (path f, join [newline] c)) (sp_files st) cs"
      "map length cs = map rows (sp_files st)" "concat cs @ currentRows st = pre"
    unfolding stored_def by blast
  show ?thesis
  proof (cases "flushes mr ms row st")
    case True
    let ?cs = "cs @ [currentRows st]"
    have "length ?cs = length (sp_files (fst (split_step out mr ms n i row (st, w))))"
      using True cs(1) by (simp add: split_step_state)
    moreover have "disk (snd (split_step out mr ms n i row (st, w))) =
        d0 @ map2 (\<lambda>f c. (path f, join [newline] c)) (sp_files (fst (split_step out mr ms n i row (st, w)))) ?cs"
      using True cs(1,2) by (simp add: split_step_state split_step_io sendProgress_def writeFileSync_def)
    moreover have "map length ?cs = map rows (sp_files (fst (split_step out mr ms n i row (st, w))))"
      using True cs(3) by (simp add: split_step_state)
    moreover have "concat ?cs @ currentRows (fst (split_step out mr ms n i row (st, w))) = pre @ [csvRow row]"
      using True cs(4) by (simp add: split_step_state)
    ultimately show ?thesis
      unfolding stored_def by blast
  next
    case False
    then show ?thesis
      using cs unfolding stored_def
      by (simp add: split_step_state split_step_io) blast
  qed
qed

lemma split_loop_stored:
  "stored d0 pre (fst sw) (snd sw) \<Longrightarrow>
   stored d0 (pre @ map csvRow rs) (fst (split_loop out mr ms n i rs sw)) (snd (split_loop out mr ms n i rs sw))"
proof (induction rs arbitrary: sw i pre)
  case Nil
  then show ?case by simp
next
  case (Cons row rest)
  obtain st w where sw: "sw = (st, w)" by (cases sw)
  let ?sw' = "split_step out mr ms n i row sw"
  have "stored d0 (pre @ [csvRow row]) (fst ?sw') (snd ?sw')"
    using Cons.prems unfolding sw by (simp add: split_step_stored)
  from Cons.IH [OF this] show ?case by simp
qed

lemma writeCSVWithSplitting_io:
  "disk (snd (writeCSVWithSplitting rs out mr mfs w)) =
    (let sw = split_loop out mr (if truthy mfs then Some (the mfs * 1024 * 1024) else None) (length rs) 0 rs
                (\<lparr>sp_files = [], fileIndex = 1, currentRows = [], currentSize = 0\<rparr>,
                 sendProgress 85 ''Preparing file splitting...'' w)
     in if currentRows (fst sw) \<noteq> []
        then disk (snd sw) @ [(if fileIndex (fst sw) = 1 then out else getChunkFilePath out (fileIndex (fst sw)),
                               join [newline] (currentRows (fst sw)))]
        else disk (snd sw))"
  by (simp add: writeCSVWithSplitting_def Let_def case_prod_beta sendProgress_def writeFileSync_def)

text \<open>
  Whatever the limits: the files written are the files recorded, in their order; each holds
  as many lines as its record says, and together they hold every row, in order.
\<close>

lemma writer_disk:
  "\<exists>cs. length cs = length (files (fst (writeCSVWithSplitting rs out mr mfs w)))
     \<and> disk (snd (writeCSVWithSplitting rs out mr mfs w)) =
         disk w @ map2 (\<lambda>f c. (path f, join [newline] c)) (files (fst (writeCSVWithSplitting rs out mr mfs w))) cs
     \<and> map length cs = map rows (files (fst (writeCSVWithSplitting rs out mr mfs w)))
     \<and> concat cs = map csvRow rs"
proof -
  let ?ms = "if truthy mfs then Some (the mfs * 1024 * 1024) else None"
  let ?init = "(\<lparr>sp_files = [], fileIndex = 1, currentRows = [], currentSize = 0\<rparr>,
               sendProgress 85 ''Preparing file splitting...'' w)"
  let ?sw = "split_loop out mr ?ms (length rs) 0 rs ?init"
  have "stored (disk w) [] (fst ?init) (snd ?init)"
    by (simp add: stored_def sendProgress_def)
  then have "stored (disk w) ([] @ map csvRow rs) (fst ?sw) (snd ?sw)"
    by (rule split_loop_stored)
  then obtain cs where cs: "length cs = length (sp_files (fst ?sw))"
      "disk (snd ?sw) = disk w @ map2 (\<lambda>f c. (path f, join [newline] c)) (sp_files (fst ?sw)) cs"
      "map length cs = map rows (sp_files (fst ?sw))" "concat cs @ currentRows (fst ?sw) = map csvRow rs"
    unfolding stored_def by auto
  show ?thesis
  proof (cases "currentRows (fst ?sw) = []")
    case True
    with cs show ?thesis
      unfolding writeCSVWithSplitting_files writeCSVWithSplitting_io
      by (intro exI [of _ cs]) (simp add: Let_def)
  next
    case False
    with cs show ?thesis
      unfolding writeCSVWithSplitting_files writeCSVWithSplitting_io
      by (intro exI [of _ "cs @ [currentRows (fst ?sw)]"]) (simp add: Let_def)
  qed
qed

subsection \<open>File names and row counts\<close>

text \<open>
  Whatever the limits, a single output file has the output path it was given, and two or
  more output files are all named \<open>_part{N}\<close>, the first included, with N counting from 1.
\<close>

lemma split_file_names:
  assumes "fs = files (fst (writeCSVWithSplitting rs outputPath maxRows maxFileSize w))"
  shows "(length fs = 1 \<longrightarrow> path (fs ! 0) = outputPath)
       \<and> (2 \<le> length fs \<longrightarrow>
            (\<forall>k < length fs. path (fs ! k) =
               \<lparr>dir = dir outputPath,
                stem = stem outputPath @ ''_part'' @ show_nat (k + 1),
                ext = ext outputPath\<rparr>))"
proof -
  have p: "map path fs = (if length fs = 1 then [outputPath] else map (getChunkFilePath outputPath) [1..<length fs + 1])"
    unfolding assms using writer_paths [of rs outputPath maxRows maxFileSize w] by (simp add: Let_def)
  have one: "length fs = 1 \<longrightarrow> path (fs ! 0) = outputPath"
  proof
    assume l: "length fs = 1"
    then have "map path fs ! 0 = outputPath" using p by simp
    then show "path (fs ! 0) = outputPath" using l by simp
  qed
  have more: "2 \<le> length fs \<longrightarrow> (\<forall>k < length fs. path (fs ! k) = getChunkFilePath outputPath (k + 1))"
  proof (intro impI allI)
    fix k assume l: "2 \<le> length fs" and k: "k < length fs"
    then have "map path fs ! k = map (getChunkFilePath outputPath) [1..<length fs + 1] ! k"
      using p by simp
    then show "path (fs ! k) = getChunkFilePath outputPath (k + 1)"
      using k by (simp del: upt_Suc)
  qed
  show ?thesis
    using one more by (simp add: getChunkFilePath_def)
qed

text \<open>
  The streaming converter names the files of the same three rows under the same limit as the
  documentation has it: the first file plain, the second \<open>_part2\<close>.
\<close>

lemma streaming_first_file_is_plain:
  "map_sum id (\<lambda>r. map path (files (fst r)))
     (convertSheetStreamingExcelJS True
        (Inr [(''S'', [[AString ''a''], [AString ''b''], [AString ''c'']])]) ''S'' ''out'' (Some 2) ''book'') =
   Inr [\<lparr>dir = ''out'', stem = ''book_S'', ext = ''.csv''\<rparr>,
        \<lparr>dir = ''out'', stem = ''book_S_part2'', ext = ''.csv''\<rparr>]"
  by code_simp

text \<open>
  C4: when the output is split, the first file is named \<open>{baseName}_{sheetName}.<ext>\<close> and
  the following ones \<open>_part2\<close>, \<open>_part3\<close>, ... The worker's writer does otherwise: with three
  rows and a limit of two rows per file it writes \<open>book_S_part1.csv\<close> and
  \<open>book_S_part2.csv\<close>, and no file of the plain name \<open>book_S.csv\<close>.
\<close>

theorem C4_first_split_file_is_part1:
  "files (fst (writeCSVWithSplitting ex_rows3 ex_out (Some 2) None no_io)) = ex_files3
   \<and> stem (path (ex_files3 ! 0)) = ''book_S_part1''
   \<and> path (ex_files3 ! 0) \<noteq> ex_out
   \<and> map fst (disk (snd (writeCSVWithSplitting ex_rows3 ex_out (Some 2) None no_io))) =
       [\<lparr>dir = ''out'', stem = ''book_S_part1'', ext = ''.csv''\<rparr>,
        \<lparr>dir = ''out'', stem = ''book_S_part2'', ext = ''.csv''\<rparr>]"
  by code_simp

text \<open>
  C1: for N rows and a row limit R > 0 with no size limit, the splitting writer records
  \<open>\<lceil>N / R\<rceil>\<close> files whose row counts sum to N; every file has at most R rows and every file
  but the last has exactly R. The files written are the files recorded: each holds as many
  serialized rows as its record says, and together they hold every row, in order.
\<close>

theorem C1_row_limited_split:
  assumes "0 < R" and "\<not> truthy maxFileSize"
    and "fs = files (fst (writeCSVWithSplitting rs outputPath (Some (int R)) maxFileSize w))"
  shows "int (length fs) = \<lceil>(of_nat (length rs) :: rat) / of_nat R\<rceil>
       \<and> sum_list (map rows fs) = length rs
       \<and> (\<forall>f \<in> set fs. rows f \<le> R)
       \<and> (\<forall>k. k + 1 < length fs \<longrightarrow> rows (fs ! k) = R)
       \<and> (\<exists>cs. length cs = length fs
              \<and> disk (snd (writeCSVWithSplitting rs outputPath (Some (int R)) maxFileSize w)) =
                  disk w @ map2 (\<lambda>f c. (path f, join [newline] c)) fs cs
              \<and> map length cs = map rows fs
              \<and> concat cs = map csvRow rs)"
proof -
  have c: "map rows fs = chunks R (length rs)"
    unfolding assms(3) using assms(1,2) by (rule writer_counts)
  have "length fs = length (chunks R (length rs))"
    using c by (metis length_map)
  then have n: "int (length fs) = \<lceil>(of_nat (length rs) :: rat) / of_nat R\<rceil>"
    using chunks_length [OF assms(1)] ceiling_as_div [OF assms(1)] by simp
  have s: "sum_list (map rows fs) = length rs"
    using c chunks_sum by simp
  have b: "\<forall>f \<in> set fs. rows f \<le> R"
  proof
    fix f assume "f \<in> set fs"
    then have "rows f \<in> set (map rows fs)" by simp
    then show "rows f \<le> R" unfolding c using chunks_bound [OF assms(1)] by blast
  qed
  have f: "\<forall>k. k + 1 < length fs \<longrightarrow> rows (fs ! k) = R"
  proof (intro allI impI)
    fix k assume k: "k + 1 < length fs"
    then have "k + 1 < length (chunks R (length rs))" using c by (metis length_map)
    then have "chunks R (length rs) ! k = R" by (rule chunks_full)
    moreover have "map rows fs ! k = rows (fs ! k)" using k by simp
    ultimately show "rows (fs ! k) = R" using c by simp
  qed
  have d: "\<exists>cs. length cs = length fs
              \<and> disk (snd (writeCSVWithSplitting rs outputPath (Some (int R)) maxFileSize w)) =
                  disk w @ map2 (\<lambda>f c. (path f, join [newline] c)) fs cs
              \<and> map length cs = map rows fs
              \<and> concat cs = map csvRow rs"
    unfolding assms(3) by (rule writer_disk)
  show ?thesis
    by (intro conjI; fact)
qed


theorem C1_row_limited_split_witness:
  "(0::nat) < 2
   \<and> \<not> truthy None
   \<and> ex_files3 = files (fst (writeCSVWithSplitting ex_rows3 ex_out (Some (int 2)) None no_io))
   \<and> int (length ex_files3) = \<lceil>(of_nat (length ex_rows3) :: rat) / of_nat 2\<rceil>
   \<and> sum_list (map rows ex_files3) = length ex_rows3
   \<and> rows (ex_files3 ! 0) = 2"
proof -
  have h1: "(0::nat) < 2"
    by simp
  have h2: "\<not> truthy None"
    by simp
  have h3: "ex_files3 = files (fst (writeCSVWithSplitting ex_rows3 ex_out (Some (int 2)) None no_io))"
    by code_simp
  have h4: "0 + 1 < length ex_files3"
    by (simp add: ex_files3_def)
  note c = C1_row_limited_split [OF h1 h2 h3]
  have c1: "int (length ex_files3) = \<lceil>(of_nat (length ex_rows3) :: rat) / of_nat 2\<rceil>"
    by (rule c [THEN conjunct1])
  have c2: "sum_list (map rows ex_files3) = length ex_rows3"
    by (rule c [THEN conjunct2, THEN conjunct1])
  have c3: "rows (ex_files3 ! 0) = 2"
    by (rule c [THEN conjunct2, THEN conjunct2, THEN conjunct2, THEN conjunct1, rule_format, OF h4])
  show ?thesis
    by (intro conjI; fact)
qed

section \<open>CSV round trip\<close>

















section \<open>Blank rows and empty worksheets\<close>

lemma hasContent_blank: "hasContent row \<longleftrightarrow> \<not> blank_row row"
  by (induction row) (auto simp: hasContent_def blank_row_def)

lemma filter_hasContent: "filter hasContent rs = kept_rows rs"
  unfolding kept_rows_def by (induction rs) (simp_all add: hasContent_blank)

lemma kept_rows_nonempty: "kept_rows rs \<noteq> [] \<Longrightarrow> rs \<noteq> []"
  by (auto simp: kept_rows_def)


lemma convertWithXLSX_kept:
  assumes "map_of (Sheets wb) n = Some ws" and "kept_rows (ws_json ws) \<noteq> []"
  shows "convertWithXLSX wb n out mr mfs w =
      (Inr (fst (writeRows (kept_rows (ws_json ws)) out mr mfs (before_writing w))),
       snd (writeRows (kept_rows (ws_json ws)) out mr mfs (before_writing w)))"
  using assms kept_rows_nonempty [OF assms(2)]
  by (simp add: convertWithXLSX_def Let_def filter_hasContent case_prod_beta before_writing_def)

lemma convertWithExcelJS_kept:
  assumes "getWorksheet wb n = Some ws" and "rowValues ws \<noteq> []"
  shows "convertWithExcelJS wb n out mr mfs w =
      (Inr (fst (writeRows (kept_rows (map (drop 1) (rowValues ws))) out mr mfs (before_writing w))),
       snd (writeRows (kept_rows (map (drop 1) (rowValues ws))) out mr mfs (before_writing w)))"
  using assms
  by (simp add: convertWithExcelJS_def Let_def filter_hasContent case_prod_beta before_writing_def)



text \<open>
  A worksheet of blank rows only makes \<open>convertWithXLSX\<close> of converter.js throw and write
  nothing; its caller takes that like any other failure of the in-memory parser and goes on
  to the fallbacks, whose outcome is the outcome of the conversion.
\<close>

lemma converter_convertWithXLSX_blank:
  assumes "map_of (Sheets wb) n = Some ws" and "kept_rows (ws_json ws) = []"
  shows "\<exists>e. converter_convertWithXLSX (Inr wb) n out w = (Inl e, w)"
  using assms by (auto simp: converter_convertWithXLSX_def Let_def filter_hasContent)

lemma converter_blank_sheet_falls_back:
  assumes "n \<in> set (SheetNames wb)" and "map_of (Sheets wb) n = Some ws"
    and "kept_rows (ws_json ws) = []"
  shows "converter_convertSingleWorksheet (Inr wb) True viaExcelJS viaPython n outDir base w =
           (case viaExcelJS (sheet_path outDir base n) w of
              (Inr r, w2) \<Rightarrow> (Inr r, w2)
            | (Inl e, w2) \<Rightarrow> viaPython (sheet_path outDir base n) w2)"
proof -
  have "n \<in> set (map fst (Sheets wb))"
    using assms(2) by (metis map_of_eq_None_iff option.distinct(1) set_map)
  moreover obtain e where "converter_convertWithXLSX (Inr wb) n (sheet_path outDir base n) w = (Inl e, w)"
    using converter_convertWithXLSX_blank [OF assms(2,3)] by blast
  ultimately show ?thesis
    using assms(1) by (simp add: converter_convertSingleWorksheet_def Let_def)
qed

text \<open>Both writers report as many rows as they are handed.\<close>

lemma writeRows_totalRows: "totalRows (fst (writeRows rs out mr mfs w)) = length rs"
  by (simp add: writeRows_def writeCSVWithSplitting_totalRows writeCSVSingle_def Let_def)




section \<open>The result of a multi-worksheet request\<close>

lemma settle_failure: "settle (ms @ [Failure e]) \<noteq> None"
  by (induction ms rule: settle.induct) simp_all

lemma settle_converted: "settle (ms @ [Success (Converted r)]) \<noteq> None"
  by (induction ms rule: settle.induct) simp_all

text \<open>Every conversion job ends with a success or an error message, so its promise settles.\<close>

lemma conversion_settles:
  "settle (posted (process env (ConvertToCSV n out mr mfs) no_io)) \<noteq> None"
proof -
  let ?w1 = "sendProgress 0 ''Starting CSV conversion...'' no_io"
  obtain v w2 where v: "validateFile env ?w1 = (v, w2)"
    by (cases "validateFile env ?w1")
  show ?thesis
  proof (cases v)
    case (Inl e)
    then show ?thesis
      using v by (simp add: process_def Let_def postMessage_def settle_failure)
  next
    case (Inr u)
    obtain r w3 where r: "convertToCSV env n out mr mfs w2 = (r, w3)"
      by (cases "convertToCSV env n out mr mfs w2")
    show ?thesis
      using v Inr r
      by (cases r) (simp_all add: process_def Let_def postMessage_def settle_failure settle_converted)
  qed
qed

lemma sheet_steps:
  "foldl (sheet_step convert d b) acc sheets =
     acc\<lparr>allFilesCreated := allFilesCreated acc @ created convert d b sheets,
         totalRowsAll := totalRowsAll (foldl (sheet_step convert d b) acc sheets),
         errors := errors acc @ failures convert d b sheets\<rparr>"
proof (induction sheets arbitrary: acc)
  case Nil
  then show ?case by (simp add: created_def failures_def)
next
  case (Cons s sheets)
  show ?case
    by (subst foldl_Cons, subst Cons.IH)
       (simp add: sheet_step_def sheet_path_def created_def failures_def Let_def split: sum.splits)
qed

text \<open>Every worksheet is converted: a failure adds its entry and the loop goes on.\<close>

lemma convert_sheets_errors:
  "errors (convert_sheets convert d b sheets) = failures convert d b sheets"
  unfolding convert_sheets_def by (subst sheet_steps) simp

lemma convert_sheets_files:
  "allFilesCreated (convert_sheets convert d b sheets) = created convert d b sheets"
  unfolding convert_sheets_def by (subst sheet_steps) simp

lemma failures_empty:
  "failures convert d b sheets = [] \<longleftrightarrow> (\<forall>s \<in> set sheets. \<exists>r. convert s (sheet_path d b s) = Inr r)"
  by (induction sheets) (auto simp: failures_def split: sum.splits)

lemma created_empty:
  "created convert d b sheets = [] \<longleftrightarrow>
     (\<forall>s \<in> set sheets. \<forall>r. convert s (sheet_path d b s) = Inr r \<longrightarrow> files r = [])"
  by (induction sheets) (auto simp: created_def split: sum.splits)

text \<open>The handler reports failure exactly when some worksheet failed and no file was created.\<close>

lemma convert_file_failed:
  assumes "sheets \<noteq> []"
  shows "\<not> success (convert_file convert d b sheets) \<longleftrightarrow>
           failures convert d b sheets \<noteq> [] \<and> created convert d b sheets = []"
  using assms
  by (simp add: convert_file_def Let_def convert_sheets_errors convert_sheets_files)

lemma convert_file_partial:
  assumes "failures convert d b sheets \<noteq> []" and "created convert d b sheets \<noteq> []"
  shows "success (convert_file convert d b sheets)
       \<and> errors_of (convert_file convert d b sheets) = Some (failures convert d b sheets)"
proof -
  have "sheets \<noteq> []" using assms(1) by (auto simp: failures_def)
  then show ?thesis
    using assms
    by (simp add: convert_file_def Let_def convert_sheets_errors convert_sheets_files)
qed

text \<open>
  When every converted worksheet comes with at least one file, the request fails exactly
  when every worksheet failed.
\<close>

lemma convert_file_failed_iff_all_failed:
  assumes "sheets \<noteq> []"
    and "\<forall>s \<in> set sheets. \<forall>r. convert s (sheet_path d b s) = Inr r \<longrightarrow> files r \<noteq> []"
  shows "\<not> success (convert_file convert d b sheets) \<longleftrightarrow>
           (\<forall>s \<in> set sheets. \<exists>e. convert s (sheet_path d b s) = Inl e)"
proof -
  have c: "created convert d b sheets = [] \<longleftrightarrow> (\<forall>s \<in> set sheets. \<exists>e. convert s (sheet_path d b s) = Inl e)"
    unfolding created_empty using assms(2) by (metis sum.exhaust_sel sum.disc(1) Inl_Inr_False obj_sumE)
  have f: "(\<forall>s \<in> set sheets. \<exists>e. convert s (sheet_path d b s) = Inl e) \<Longrightarrow> failures convert d b sheets \<noteq> []"
    unfolding failures_empty using assms(1) by (cases sheets) auto
  show ?thesis
    unfolding convert_file_failed [OF assms(1)] using c f by blast
qed

text \<open>
  C2: the request fails only if every worksheet failed, and a partial failure is reported
  with \<open>success: true\<close> and the errors. In \<open>ex_xjs_env\<close> the worker converts worksheet \<open>A\<close>
  (its only row is blank, so the splitting writer creates no file) and fails on the missing
  worksheet \<open>B\<close>; the handler then reports that all worksheets failed.
\<close>

theorem C2_converted_sheet_reported_as_total_failure:
  "convertWorksheetToCSV ex_xjs_env (Some 1000) None ''A'' (sheet_path ''out'' ''book'' ''A'')
     = Inr \<lparr>totalRows = 0, files = []\<rparr>
   \<and> convert_file_background ex_xjs_env (Some 1000) None ''out'' ''book'' [''A'', ''B'']
     = Failed (''All worksheets failed to convert:'' @ backslash_n
                @ ''B: Failed to convert B: Worksheet \"B\" not found'')"
  by code_simp

section \<open>Progress of one job\<close>

lemma percents_append: "percents (xs @ ys) = percents xs @ percents ys"
  by (simp add: percents_def)

lemma percents_simps:
  "percents [] = []"
  "percents (Progress p m # ms) = p # percents ms"
  "percents (WorksheetNames ns # ms) = percents ms"
  "percents (WorksheetInfos is # ms) = percents ms"
  "percents (Success pl # ms) = percents ms"
  "percents (Failure e # ms) = percents ms"
  by (simp_all add: percents_def)

lemma adds_refl: "lo \<le> hi \<Longrightarrow> adds lo hi w w"
  by (simp add: adds_def)

lemma adds_trans:
  assumes "adds a b w w1" and "adds c d w1 w2" and "b \<le> c"
  shows "adds a d w w2"
proof -
  from assms(1) obtain ps where ps: "a \<le> b" "percents (posted w1) = percents (posted w) @ ps"
      "sorted ps" "list_all (\<lambda>p. a \<le> p \<and> p \<le> b) ps"
    unfolding adds_def by blast
  from assms(2) obtain qs where qs: "c \<le> d" "percents (posted w2) = percents (posted w1) @ qs"
      "sorted qs" "list_all (\<lambda>p. c \<le> p \<and> p \<le> d) qs"
    unfolding adds_def by blast
  have "sorted (ps @ qs)"
    using ps(3,4) qs(3,4) assms(3) by (fastforce simp: sorted_append list_all_iff)
  moreover have "list_all (\<lambda>p. a \<le> p \<and> p \<le> d) (ps @ qs)"
    using ps(1,4) qs(1,4) assms(3) by (fastforce simp: list_all_iff)
  moreover have "percents (posted w2) = percents (posted w) @ (ps @ qs)"
    using ps(2) qs(2) by simp
  moreover have "a \<le> d"
    using ps(1) qs(1) assms(3) by simp
  ultimately show ?thesis
    unfolding adds_def by blast
qed

lemma adds_progress: "adds p p w (sendProgress p m w)"
  unfolding adds_def by (intro conjI exI [of _ "[p]"]) (simp_all add: sendProgress_def percents_append percents_simps)

lemma adds_then_progress:
  "adds a b w w1 \<Longrightarrow> b \<le> p \<Longrightarrow> adds a p w (sendProgress p m w1)"
  using adds_trans [OF _ adds_progress] by blast

lemma adds_then_write: "adds a b w w1 \<Longrightarrow> adds a b w (writeFileSync f s w1)"
  by (simp add: adds_def writeFileSync_def)

lemma adds_then_done: "adds a b w w1 \<Longrightarrow> adds a b w (postMessage (Success pl) w1)"
  by (simp add: adds_def postMessage_def percents_append percents_simps)

lemma adds_then_failed: "adds a b w w1 \<Longrightarrow> adds a b w (postMessage (Failure e) w1)"
  by (simp add: adds_def postMessage_def percents_append percents_simps)

lemma adds_widen: "adds a b w w1 \<Longrightarrow> a' \<le> a \<Longrightarrow> b \<le> b' \<Longrightarrow> adds a' b' w w1"
  unfolding adds_def by (fastforce simp: list_all_iff)

lemma adds_sorted: "adds lo hi no_io w \<Longrightarrow> sorted (percents (posted w))"
  by (auto simp: adds_def no_io_def percents_simps)

lemma flush_percent_mono: "i \<le> j \<Longrightarrow> flush_percent n i \<le> flush_percent n j"
  by (simp add: flush_percent_def divide_right_mono)

lemma flush_percent_top: "i \<le> n \<Longrightarrow> flush_percent n i \<le> 95"
proof -
  assume "i \<le> n"
  define x :: rat where "x = of_nat i / of_nat n"
  have "x \<le> 1"
    unfolding x_def using \<open>i \<le> n\<close> by (cases "n = 0") (simp_all add: divide_le_eq_1)
  then have "85 + x * 10 \<le> 95"
    by linarith
  then show ?thesis
    unfolding flush_percent_def x_def .
qed

lemma split_step_adds:
  "adds (flush_percent n i) (flush_percent n i) w (snd (split_step out mr ms n i row (st, w)))"
proof (cases "flushes mr ms row st")
  case True
  have "adds (flush_percent n i) (flush_percent n i)
          (writeFileSync (getChunkFilePath out (fileIndex st)) (join [newline] (currentRows st)) w)
          (sendProgress (flush_percent n i)
            (''Created file '' @ show_nat (fileIndex st) @ '' with ''
               @ show_nat (length (currentRows st)) @ '' rows'')
            (writeFileSync (getChunkFilePath out (fileIndex st)) (join [newline] (currentRows st)) w))"
    by (rule adds_progress)
  then show ?thesis
    using True by (simp add: split_step_io flush_percent_def adds_def writeFileSync_def)
next
  case False
  then show ?thesis
    by (simp add: split_step_io adds_refl)
qed

lemma split_loop_adds:
  "i + length rs \<le> n \<Longrightarrow>
   adds (flush_percent n i) 95 (snd sw) (snd (split_loop out mr ms n i rs sw))"
proof (induction rs arbitrary: sw i)
  case Nil
  then show ?case
    by (simp add: adds_refl flush_percent_top)
next
  case (Cons row rest)
  obtain st w where sw: "sw = (st, w)" by (cases sw)
  let ?sw' = "split_step out mr ms n i row sw"
  have step: "adds (flush_percent n i) (flush_percent n i) (snd sw) (snd ?sw')"
    unfolding sw using split_step_adds [of n i w out mr ms row st] by simp
  have "Suc i + length rest \<le> n" using Cons.prems by simp
  from Cons.IH [OF this, of ?sw']
  have rest: "adds (flush_percent n (Suc i)) 95 (snd ?sw') (snd (split_loop out mr ms n (Suc i) rest ?sw'))" .
  have "flush_percent n i \<le> flush_percent n (Suc i)"
    by (rule flush_percent_mono) simp
  from adds_trans [OF step rest this] show ?case by simp
qed


lemma writeCSVWithSplitting_adds:
  "adds 85 100 w (snd (writeCSVWithSplitting rs out mr mfs w))"
proof -
  let ?ms = "if truthy mfs then Some (the mfs * 1024 * 1024) else None"
  let ?w1 = "sendProgress 85 ''Preparing file splitting...'' w"
  let ?init = "(\<lparr>sp_files = [], fileIndex = 1, currentRows = [], currentSize = 0\<rparr>, ?w1)"
  let ?sw = "split_loop out mr ?ms (length rs) 0 rs ?init"
  have a: "adds 85 85 w ?w1"
    by (rule adds_progress)
  have "adds (flush_percent (length rs) 0) 95 (snd ?init) (snd ?sw)"
    by (rule split_loop_adds) simp
  then have b: "adds 85 95 ?w1 (snd ?sw)"
    by (simp add: flush_percent_def)
  have c: "adds 85 95 w (snd ?sw)"
    using adds_trans [OF a b] by simp
  have d: "adds 85 95 w (writeFileSync f s (snd ?sw))" for f s
    using c by (rule adds_then_write)
  show ?thesis
  proof (cases "currentRows (fst ?sw) \<noteq> []")
    case True
    have "adds 85 100 w (sendProgress 100 m (writeFileSync f s (snd ?sw)))" for m f s
      using adds_then_progress [OF d, of 100] by simp
    then show ?thesis
      using True by (simp add: writeCSVWithSplitting_def Let_def case_prod_beta)
  next
    case False
    have "adds 85 100 w (sendProgress 100 m (snd ?sw))" for m
      using adds_then_progress [OF c, of 100] by simp
    then show ?thesis
      using False by (simp add: writeCSVWithSplitting_def Let_def case_prod_beta)
  qed
qed

lemma writeCSVSingle_adds: "adds 85 100 w (snd (writeCSVSingle rs out w))"
proof -
  have "adds 90 90 w (sendProgress 90 ''Writing CSV file...'' w)"
    by (rule adds_progress)
  then have "adds 90 90 w (writeFileSync out (join [newline] (map csvRow rs)) (sendProgress 90 ''Writing CSV file...'' w))"
    by (rule adds_then_write)
  then have "adds 90 100 w (snd (writeCSVSingle rs out w))"
    unfolding writeCSVSingle_def Let_def by (simp add: adds_then_progress)
  then show ?thesis
    by (rule adds_widen) simp_all
qed

lemma writeRows_adds: "adds 85 100 w (snd (writeRows rs out mr mfs w))"
  unfolding writeRows_def
  using writeCSVWithSplitting_adds writeCSVSingle_adds by simp

lemma before_writing_adds: "adds 40 80 w (before_writing w)"
  unfolding before_writing_def
  by (intro adds_then_progress [of 40 60] adds_then_progress [of 40 40] adds_progress) simp_all

lemma convertWithXLSX_adds:
  "adds 40 100 w (snd (convertWithXLSX wb n out mr mfs w))"
proof (cases "map_of (Sheets wb) n")
  case None
  then show ?thesis by (simp add: convertWithXLSX_def adds_refl)
next
  case (Some ws)
  have a: "adds 40 40 w (sendProgress 40 ''Converting to CSV format...'' w)"
    by (rule adds_progress)
  have b: "adds 40 60 w (sendProgress 60 ''Processing rows...'' (sendProgress 40 ''Converting to CSV format...'' w))"
    using a by (rule adds_then_progress) simp
  show ?thesis
  proof (cases "ws_json ws = []")
    case True
    then show ?thesis
      using Some adds_widen [OF a, of 40 100] by (simp add: convertWithXLSX_def Let_def)
  next
    case False
    show ?thesis
    proof (cases "kept_rows (ws_json ws) = []")
      case True
      then show ?thesis
        using Some False adds_widen [OF b, of 40 100]
        by (simp add: convertWithXLSX_def Let_def filter_hasContent)
    next
      case False
      have "adds 40 100 w (snd (writeRows (kept_rows (ws_json ws)) out mr mfs (before_writing w)))"
        using adds_trans [OF before_writing_adds writeRows_adds] by simp
      then show ?thesis
        unfolding convertWithXLSX_kept [OF Some False] by simp
    qed
  qed
qed

lemma convertWithExcelJS_adds:
  "adds 40 100 w (snd (convertWithExcelJS wb n out mr mfs w))"
proof (cases "getWorksheet wb n")
  case None
  then show ?thesis by (simp add: convertWithExcelJS_def adds_refl)
next
  case (Some ws)
  have a: "adds 40 40 w (sendProgress 40 ''Converting to CSV format...'' w)"
    by (rule adds_progress)
  show ?thesis
  proof (cases "rowValues ws = []")
    case True
    then show ?thesis
      using Some adds_widen [OF a, of 40 100] by (simp add: convertWithExcelJS_def Let_def)
  next
    case False
    have "adds 40 100 w (snd (writeRows (kept_rows (map (drop 1) (rowValues ws))) out mr mfs (before_writing w)))"
      using adds_trans [OF before_writing_adds writeRows_adds] by simp
    then show ?thesis
      unfolding convertWithExcelJS_kept [OF Some False] by simp
  qed
qed

lemma loadWorkbook_adds: "adds 25 25 w (snd (loadWorkbook env w))"
  unfolding loadWorkbook_def Let_def
  by (auto split: sum.splits intro: adds_progress adds_refl adds_then_progress [OF adds_progress, of 25 25])

lemma validateFile_adds: "adds 5 10 w (snd (validateFile env w))"
  unfolding validateFile_def Let_def
  by (auto intro: adds_widen [OF adds_progress] adds_then_progress [OF adds_progress])

lemma convertToCSV_adds:
  "adds 10 100 w (snd (convertToCSV env n out mr mfs w))"
proof -
  let ?w2 = "sendProgress 20 ''Loading Excel file...'' (sendProgress 10 (''Starting conversion of '' @ n @ ''...'') w)"
  have a: "adds 10 20 w ?w2"
    by (intro adds_then_progress [of 10 10] adds_progress) simp
  have b: "adds 10 25 w (snd (loadWorkbook env ?w2))"
    using adds_trans [OF a loadWorkbook_adds] by simp
  obtain r w3 where l: "loadWorkbook env ?w2 = (r, w3)"
    by (cases "loadWorkbook env ?w2")
  with b have b': "adds 10 25 w w3" by simp
  show ?thesis
  proof (cases r)
    case (Inl e)
    then show ?thesis
      using l adds_widen [OF b', of 10 100] by (simp add: convertToCSV_def Let_def)
  next
    case (Inr book)
    let ?w4 = "sendProgress 30 (''Processing worksheet '' @ n @ ''...'') w3"
    have c: "adds 10 30 w ?w4"
      using b' by (rule adds_then_progress) simp
    show ?thesis
    proof (cases book)
      case (XLSX wb)
      have "adds 10 100 w (snd (convertWithXLSX wb n out mr mfs ?w4))"
        using adds_trans [OF c convertWithXLSX_adds] by simp
      then show ?thesis
        using l Inr XLSX
        by (simp add: convertToCSV_def Let_def case_prod_beta split: sum.splits)
    next
      case (ExcelJS wb)
      have "adds 10 100 w (snd (convertWithExcelJS wb n out mr mfs ?w4))"
        using adds_trans [OF c convertWithExcelJS_adds] by simp
      then show ?thesis
        using l Inr ExcelJS
        by (simp add: convertToCSV_def Let_def case_prod_beta split: sum.splits)
    qed
  qed
qed

text \<open>The percentages of a conversion job never decrease.\<close>

lemma conversion_progress_sorted:
  "sorted (percents (posted (process env (ConvertToCSV n out mr mfs) no_io)))"
proof -
  let ?w1 = "sendProgress 0 ''Starting CSV conversion...'' no_io"
  have a: "adds 0 0 no_io ?w1"
    by (rule adds_progress)
  have b: "adds 0 10 no_io (snd (validateFile env ?w1))"
    using adds_trans [OF a validateFile_adds] by simp
  obtain v w2 where v: "validateFile env ?w1 = (v, w2)"
    by (cases "validateFile env ?w1")
  with b have b': "adds 0 10 no_io w2" by simp
  have "adds 0 100 no_io (process env (ConvertToCSV n out mr mfs) no_io)"
  proof (cases v)
    case (Inl e)
    then show ?thesis
      using v adds_then_failed [OF adds_widen [OF b', of 0 100]]
      by (simp add: process_def Let_def)
  next
    case (Inr u)
    have c: "adds 0 100 no_io (snd (convertToCSV env n out mr mfs w2))"
      using adds_trans [OF b' convertToCSV_adds] by simp
    obtain r w3 where r: "convertToCSV env n out mr mfs w2 = (r, w3)"
      by (cases "convertToCSV env n out mr mfs w2")
    with c have "adds 0 100 no_io w3" by simp
    then show ?thesis
      using v Inr r adds_then_failed adds_then_done
      by (cases r) (simp_all add: process_def Let_def)
  qed
  then show ?thesis
    by (rule adds_sorted)
qed

lemma tryExcelJS_ends:
  "tryExcelJS pe env w = (Inr r, w') \<Longrightarrow>
   \<exists>ms. posted w' = ms @ [Progress 100 ''Worksheet analysis complete'']"
  by (auto simp: tryExcelJS_def Let_def sendProgress_def postMessage_def split: sum.splits)

lemma processWorksheets_ends:
  "processWorksheets env w = (Inr r, w') \<Longrightarrow>
   \<exists>ms. posted w' = ms @ [Progress 100 ''Worksheet analysis complete'']"
  by (auto simp: processWorksheets_def Let_def sendProgress_def postMessage_def
      split: sum.splits if_splits dest: tryExcelJS_ends)

lemma analyzeWorksheets_starts:
  "\<exists>ms. percents ms = [] \<and>
     posted (snd (analyzeWorksheets r w)) =
       posted w @ Progress 85 ''Analyzing worksheet complexity...'' # ms"
proof (cases "case an_workbook r of XLSX wb \<Rightarrow> xlsx_infos wb (an_worksheets r)
                | ExcelJS wb \<Rightarrow> Some (map xjs_info (worksheets wb))")
  case None
  then show ?thesis
    by (intro exI [of _ "[]"]) (simp add: analyzeWorksheets_def Let_def sendProgress_def percents_simps)
next
  case (Some infos)
  then show ?thesis
    by (intro exI [of _ "[WorksheetInfos infos]"])
       (simp add: analyzeWorksheets_def Let_def sendProgress_def postMessage_def percents_simps)
qed

lemma drop_not_sorted: "\<not> sorted (ps @ [100, 85 :: rat])"
  by (simp add: sorted_append)

text \<open>Every analysis job that succeeds posts 85 after 100.\<close>

lemma analysis_progress_drops:
  assumes "Success pl \<in> set (posted (process env GetWorksheets no_io))"
  shows "\<not> sorted (percents (posted (process env GetWorksheets no_io)))"
proof -
  let ?w1 = "sendProgress 0 ''Starting Excel file analysis...'' no_io"
  obtain v w2 where v: "validateFile env ?w1 = (v, w2)"
    by (cases "validateFile env ?w1")
  obtain r w3 where r: "processWorksheets env w2 = (r, w3)"
    by (cases "processWorksheets env w2")
  have no: "Success pl \<notin> set (posted ?w1)"
    by (simp add: sendProgress_def no_io_def)
  have v_posts: "Success pl \<notin> set (posted w2)"
    using v no by (auto simp: validateFile_def Let_def sendProgress_def split: if_splits)
  show ?thesis
  proof (cases v)
    case (Inl e)
    then show ?thesis
      using assms v v_posts by (simp add: process_def Let_def postMessage_def)
  next
    case (Inr u)
    show ?thesis
    proof (cases r)
      case (Inl e)
      have "Success pl \<notin> set (posted w3)"
        using r Inl v_posts
        by (auto simp: processWorksheets_def tryExcelJS_def Let_def sendProgress_def postMessage_def
            split: sum.splits if_splits option.splits)
      then show ?thesis
        using assms v r Inl \<open>v = Inr u\<close> by (simp add: process_def Let_def postMessage_def)
    next
      case (Inr result)
      from processWorksheets_ends [OF r [unfolded Inr]]
      obtain ms where ms: "posted w3 = ms @ [Progress 100 ''Worksheet analysis complete'']"
        by blast
      from analyzeWorksheets_starts [of result w3]
      obtain ns where ns: "percents ns = []"
          "posted (snd (analyzeWorksheets result w3)) =
             posted w3 @ Progress 85 ''Analyzing worksheet complexity...'' # ns"
        by blast
      have "percents (posted (process env GetWorksheets no_io)) = percents ms @ [100, 85]"
        using v r Inr \<open>v = Inr u\<close> ms ns
        by (simp add: process_def Let_def case_prod_beta postMessage_def percents_append percents_simps)
      then show ?thesis
        by (simp only: drop_not_sorted not_False_eq_True)
    qed
  qed
qed

text \<open>
  C6: the progress percentages of one job never decrease. The analysis job on a readable
  workbook posts 100 ("Worksheet analysis complete") at the end of \<open>processWorksheets\<close> and
  then 85 ("Analyzing worksheet complexity...") at the start of \<open>analyzeWorksheets\<close>.
\<close>

theorem C6_analysis_progress_drops:
  "percents (posted (process ex_env GetWorksheets no_io)) = [0, 5, 10, 20, 30, 60, 80, 100, 85]
   \<and> \<not> sorted (percents (posted (process ex_env GetWorksheets no_io)))"
  by code_simp

end
